theory Spec2Isabelle
  imports Main "HOL-Library.Word"
begin

section \<open>Values, exceptions and the world outside the script\<close>

text \<open>
  The script \<^verbatim>\<open>image_processing_drawbox_helper.py\<close> logs in to a prediction service,
  sends every image of a folder to it, draws the returned boxes and writes a preview, a
  LabelMe document and a copy of the image. The model below follows the script function
  by function. What the script gets from its libraries (the HTTP service, Pillow, the
  JSON serialiser, float arithmetic) is a field of the record \<open>world\<close>; what it reads and
  changes (the file system, the global \<open>class_colors\<close>, standard output) is the record
  \<open>pystate\<close>, threaded through every call.
\<close>

type_synonym byte = "8 word"
type_synonym bytes = "byte list"
type_synonym path = string
type_synonym rgb = "nat \<times> nat \<times> nat"

text \<open>A Python float is kept as its 64 bits; its arithmetic belongs to the world.\<close>

type_synonym pyfloat = "64 word"

text \<open>
  The values \<^verbatim>\<open>resp.json()\<close> returns. A \<open>JObj\<close> is a dict in insertion order; a lookup
  takes the first binding of a key.
\<close>

datatype json =
    JNull
  | JBool bool
  | JInt int
  | JFloat pyfloat
  | JStr string
  | JList "json list"
  | JObj "(string \<times> json) list"

datatype py_error =
    FileNotFoundError
  | IsADirectoryError
  | NotADirectoryError
  | FileExistsError
  | SameFileError
  | OSError
  | UnidentifiedImageError
  | RequestException
  | JSONDecodeError
  | KeyError string
  | TypeError
  | ValueError
  | AttributeError
  | OverflowError
  | OtherError string

text \<open>
  A response of \<^verbatim>\<open>requests.post\<close>: \<open>resp_json\<close> is \<open>None\<close> when the body is not JSON
  (\<^verbatim>\<open>resp.json()\<close> raises then).
\<close>

record response =
  status_code :: int
  resp_text :: string
  resp_json :: "json option"

datatype font = TrueType string nat | DefaultFont

text \<open>
  Pillow's drawing calls, with the arguments the script passes. The label text
  \<^verbatim>\<open>f"{class_name}: {confidence:.2f}"\<close> is kept as its two parts.
\<close>

datatype draw_op =
    Rectangle json json json json rgb nat
  | DrawText json json json string font rgb

text \<open>
  An opened image: the bytes it was decoded from, its size, and the drawing calls made
  on it so far, oldest first.
\<close>

record image =
  img_src :: bytes
  img_size :: "nat \<times> nat"
  img_ops :: "draw_op list"

record world =
  post_json :: "string \<Rightarrow> (string \<times> string) list \<Rightarrow> py_error + response"
  post_files :: "string \<Rightarrow> json \<Rightarrow> string \<Rightarrow> bytes \<Rightarrow> py_error + response"
  truetype :: "string \<Rightarrow> nat \<Rightarrow> py_error option"
  image_open :: "bytes \<Rightarrow> py_error + (nat \<times> nat)"
  image_draw :: "image \<Rightarrow> draw_op \<Rightarrow> py_error option"
  image_save :: "image \<Rightarrow> (py_error \<times> bytes) + bytes"
  json_dump :: "json \<Rightarrow> bytes"
  float_add :: "json \<Rightarrow> json \<Rightarrow> py_error + json"
  float_sub :: "json \<Rightarrow> json \<Rightarrow> py_error + json"
  format_2f :: "json \<Rightarrow> py_error + string"
  float_key :: "pyfloat \<Rightarrow> json"

text \<open>
  The file system: \<open>fs_dirs\<close> maps a directory to the names \<^verbatim>\<open>os.listdir\<close> returns for
  it, in that order, and \<open>fs_data\<close> maps a regular file to its contents. Paths are
  compared as strings.
\<close>

record filesystem =
  fs_dirs :: "path \<rightharpoonup> string list"
  fs_data :: "path \<rightharpoonup> bytes"

text \<open>The lines the script prints, each kept as its message and arguments.\<close>

datatype msg =
    LoggingIn
  | LoginFailed string
  | TokenNotFound
  | LoginSuccessful
  | FontWarning
  | InputFolderMissing string
  | NoImageFiles string
  | ProcessingImage path
  | ImageNotFound path
  | PredictionFailed path string
  | Received nat string
  | ImageInfo json
  | SavedPreview path
  | SavedJson path
  | Copied path

record pystate =
  fs :: filesystem
  class_colors :: "(json \<times> rgb) list"
  stdout :: "msg list"

subsection \<open>Statements that may raise\<close>

type_synonym 'a py = "pystate \<Rightarrow> (py_error + 'a) \<times> pystate"

definition py_return :: "'a \<Rightarrow> 'a py" where
  "py_return x = (\<lambda>s. (Inr x, s))"

definition py_raise :: "py_error \<Rightarrow> 'a py" where
  "py_raise e = (\<lambda>s. (Inl e, s))"

definition py_lift :: "py_error + 'a \<Rightarrow> 'a py" where
  "py_lift r = (\<lambda>s. (r, s))"

definition py_bind :: "'a py \<Rightarrow> ('a \<Rightarrow> 'b py) \<Rightarrow> 'b py" where
  "py_bind m f = (\<lambda>s. case m s of (Inl e, s') \<Rightarrow> (Inl e, s') | (Inr x, s') \<Rightarrow> f x s')"

definition py_print :: "msg \<Rightarrow> unit py" where
  "py_print m = (\<lambda>s. (Inr (), s\<lparr>stdout := stdout s @ [m]\<rparr>))"

subsection \<open>Python's operations on JSON values\<close>

definition py_get :: "json \<Rightarrow> string \<Rightarrow> json \<Rightarrow> py_error + json" where
  \<comment> \<open>\<^verbatim>\<open>v.get(key, default)\<close>: only a dict has the method.\<close>
  "py_get v key dflt =
     (case v of
        JObj kvs \<Rightarrow> Inr (case map_of kvs key of Some x \<Rightarrow> x | None \<Rightarrow> dflt)
      | _ \<Rightarrow> Inl AttributeError)"

definition py_getitem :: "json \<Rightarrow> string \<Rightarrow> py_error + json" where
  \<comment> \<open>\<^verbatim>\<open>v[key]\<close> with a string key.\<close>
  "py_getitem v key =
     (case v of
        JObj kvs \<Rightarrow> (case map_of kvs key of Some x \<Rightarrow> Inr x | None \<Rightarrow> Inl (KeyError key))
      | _ \<Rightarrow> Inl TypeError)"

definition py_len :: "json \<Rightarrow> py_error + nat" where
  "py_len v =
     (case v of
        JList xs \<Rightarrow> Inr (length xs)
      | JStr s \<Rightarrow> Inr (length s)
      | JObj kvs \<Rightarrow> Inr (length kvs)
      | _ \<Rightarrow> Inl TypeError)"

definition py_iter :: "json \<Rightarrow> py_error + json list" where
  \<comment> \<open>The items a \<^verbatim>\<open>for\<close> loop visits.\<close>
  "py_iter v =
     (case v of
        JList xs \<Rightarrow> Inr xs
      | JStr s \<Rightarrow> Inr (map (\<lambda>c. JStr [c]) s)
      | JObj kvs \<Rightarrow> Inr (map (\<lambda>kv. JStr (fst kv)) kvs)
      | _ \<Rightarrow> Inl TypeError)"

definition int_of_bool :: "bool \<Rightarrow> int" where
  "int_of_bool b = (if b then 1 else 0)"

fun py_add :: "world \<Rightarrow> json \<Rightarrow> json \<Rightarrow> py_error + json" where
  "py_add W (JInt a) (JInt b) = Inr (JInt (a + b))"
| "py_add W (JInt a) (JBool b) = Inr (JInt (a + int_of_bool b))"
| "py_add W (JBool a) (JInt b) = Inr (JInt (int_of_bool a + b))"
| "py_add W (JBool a) (JBool b) = Inr (JInt (int_of_bool a + int_of_bool b))"
| "py_add W (JFloat a) (JFloat b) = float_add W (JFloat a) (JFloat b)"
| "py_add W (JFloat a) (JInt b) = float_add W (JFloat a) (JInt b)"
| "py_add W (JFloat a) (JBool b) = float_add W (JFloat a) (JBool b)"
| "py_add W (JInt a) (JFloat b) = float_add W (JInt a) (JFloat b)"
| "py_add W (JBool a) (JFloat b) = float_add W (JBool a) (JFloat b)"
| "py_add W (JStr a) (JStr b) = Inr (JStr (a @ b))"
| "py_add W (JList a) (JList b) = Inr (JList (a @ b))"
| "py_add W _ _ = Inl TypeError"

fun py_sub :: "world \<Rightarrow> json \<Rightarrow> json \<Rightarrow> py_error + json" where
  "py_sub W (JInt a) (JInt b) = Inr (JInt (a - b))"
| "py_sub W (JInt a) (JBool b) = Inr (JInt (a - int_of_bool b))"
| "py_sub W (JBool a) (JInt b) = Inr (JInt (int_of_bool a - b))"
| "py_sub W (JBool a) (JBool b) = Inr (JInt (int_of_bool a - int_of_bool b))"
| "py_sub W (JFloat a) (JFloat b) = float_sub W (JFloat a) (JFloat b)"
| "py_sub W (JFloat a) (JInt b) = float_sub W (JFloat a) (JInt b)"
| "py_sub W (JFloat a) (JBool b) = float_sub W (JFloat a) (JBool b)"
| "py_sub W (JInt a) (JFloat b) = float_sub W (JInt a) (JFloat b)"
| "py_sub W (JBool a) (JFloat b) = float_sub W (JBool a) (JFloat b)"
| "py_sub W _ _ = Inl TypeError"

definition py_format_2f :: "world \<Rightarrow> json \<Rightarrow> py_error + string" where
  \<comment> \<open>\<^verbatim>\<open>f"{v:.2f}"\<close>: a number is formatted, a string has no format code f.\<close>
  "py_format_2f W v =
     (case v of
        JInt _ \<Rightarrow> format_2f W v
      | JBool _ \<Rightarrow> format_2f W v
      | JFloat _ \<Rightarrow> format_2f W v
      | JStr _ \<Rightarrow> Inl ValueError
      | _ \<Rightarrow> Inl TypeError)"

definition dict_key :: "world \<Rightarrow> json \<Rightarrow> py_error + json" where
  \<comment> \<open>The key a dict files a value under: lists and dicts are unhashable, and equal
      numbers (\<^verbatim>\<open>True\<close>, \<^verbatim>\<open>1\<close>, \<^verbatim>\<open>1.0\<close>) are one key.\<close>
  "dict_key W v =
     (case v of
        JList _ \<Rightarrow> Inl TypeError
      | JObj _ \<Rightarrow> Inl TypeError
      | JBool b \<Rightarrow> Inr (JInt (int_of_bool b))
      | JFloat f \<Rightarrow> Inr (float_key W f)
      | _ \<Rightarrow> Inr v)"

definition py_truthy :: "world \<Rightarrow> json \<Rightarrow> bool" where
  "py_truthy W v =
     (case v of
        JNull \<Rightarrow> False
      | JBool b \<Rightarrow> b
      | JInt i \<Rightarrow> i \<noteq> 0
      | JFloat f \<Rightarrow> float_key W f \<noteq> JInt 0
      | JStr s \<Rightarrow> s \<noteq> []
      | JList xs \<Rightarrow> xs \<noteq> []
      | JObj kvs \<Rightarrow> kvs \<noteq> [])"

section \<open>The colour registry\<close>

definition color_palette :: "rgb list" where
  "color_palette =
     [(255, 0, 0), (0, 255, 0), (0, 0, 255), (255, 255, 0), (255, 0, 255), (0, 255, 255),
      (128, 0, 0), (0, 128, 0), (0, 0, 128), (128, 128, 0), (128, 0, 128), (0, 128, 128)]"

definition get_color_for_class :: "world \<Rightarrow> json \<Rightarrow> rgb py" where
  "get_color_for_class W class_name = (\<lambda>s.
     case dict_key W class_name of
       Inl e \<Rightarrow> (Inl e, s)
     | Inr k \<Rightarrow>
        (case map_of (class_colors s) k of
           Some c \<Rightarrow> (Inr c, s)
         | None \<Rightarrow>
            (let assigned_color =
                   color_palette ! (length (class_colors s) mod length color_palette)
             in (Inr assigned_color,
                 s\<lparr>class_colors := class_colors s @ [(k, assigned_color)]\<rparr>))))"

definition shape_record :: "json \<Rightarrow> json \<Rightarrow> json \<Rightarrow> json \<Rightarrow> json \<Rightarrow> json" where
  \<comment> \<open>The dict literal of a shape: label, the corners, no group, a rectangle, no flags.\<close>
  "shape_record class_name x y x1 y1 =
     JObj [(''label'', class_name),
           (''points'', JList [JList [x, y], JList [x1, y1]]),
           (''group_id'', JNull),
           (''shape_type'', JStr ''rectangle''),
           (''flags'', JObj [])]"

section \<open>Library functions the script calls\<close>

subsection \<open>\<^verbatim>\<open>os.path\<close>\<close>

definition basename :: "path \<Rightarrow> string" where
  \<comment> \<open>What follows the last slash.\<close>
  "basename p = rev (takeWhile (\<lambda>c. c \<noteq> CHR ''/'') (rev p))"

definition dirname :: "path \<Rightarrow> path" where
  \<comment> \<open>What precedes the last slash, without trailing slashes unless it is only slashes.\<close>
  "dirname p =
     (let head = take (length p - length (basename p)) p
      in if head \<noteq> [] \<and> \<not> list_all (\<lambda>c. c = CHR ''/'') head
         then rev (dropWhile (\<lambda>c. c = CHR ''/'') (rev head))
         else head)"

definition path_join :: "path \<Rightarrow> path \<Rightarrow> path" where
  "path_join a b =
     (if b \<noteq> [] \<and> hd b = CHR ''/'' then b
      else if a = [] \<or> last a = CHR ''/'' then a @ b
      else a @ ''/'' @ b)"

definition splitext :: "path \<Rightarrow> path \<times> string" where
  \<comment> \<open>Split at the last dot of the last component, unless only dots precede it there.\<close>
  "splitext p =
     (let name = basename p;
          ext = rev (takeWhile (\<lambda>c. c \<noteq> CHR ''.'') (rev name))
      in if CHR ''.'' \<notin> set name then (p, [])
         else if list_all (\<lambda>c. c = CHR ''.'') (take (length name - length ext - 1) name)
         then (p, [])
         else (take (length p - length ext - 1) p, drop (length p - length ext - 1) p))"

subsection \<open>Strings\<close>

definition lower_char :: "char \<Rightarrow> char" where
  "lower_char c =
     (case map_of (zip ''ABCDEFGHIJKLMNOPQRSTUVWXYZ'' ''abcdefghijklmnopqrstuvwxyz'') c of
        Some l \<Rightarrow> l
      | None \<Rightarrow> c)"

definition lower :: "string \<Rightarrow> string" where
  "lower s = map lower_char s"

definition endswith :: "string \<Rightarrow> string \<Rightarrow> bool" where
  "endswith s suffix = (length suffix \<le> length s \<and> drop (length s - length suffix) s = suffix)"

subsection \<open>\<^verbatim>\<open>base64\<close>\<close>

definition b64_alphabet :: string where
  "b64_alphabet = ''ABCDEFGHIJKLMNOPQRSTUVWXYZabcdefghijklmnopqrstuvwxyz0123456789+/''"

definition b64_char :: "nat \<Rightarrow> char" where
  "b64_char i = b64_alphabet ! i"

definition b64_value :: "char \<Rightarrow> nat option" where
  "b64_value c = map_of (zip b64_alphabet [0 ..< 64]) c"

text \<open>
  \<^verbatim>\<open>base64.b64encode(data).decode('utf-8')\<close>: three bytes become four characters of the
  alphabet, and a last group of one or two bytes is padded with \<open>=\<close>.
\<close>

fun b64encode :: "bytes \<Rightarrow> string" where
  "b64encode [] = []"
| "b64encode [a] =
     (let n = unat a * 65536
      in [b64_char (n div 262144), b64_char (n div 4096 mod 64), CHR ''='', CHR ''=''])"
| "b64encode [a, b] =
     (let n = unat a * 65536 + unat b * 256
      in [b64_char (n div 262144), b64_char (n div 4096 mod 64), b64_char (n div 64 mod 64),
          CHR ''=''])"
| "b64encode (a # b # c # rest) =
     (let n = unat a * 65536 + unat b * 256 + unat c
      in [b64_char (n div 262144), b64_char (n div 4096 mod 64), b64_char (n div 64 mod 64),
          b64_char (n mod 64)] @ b64encode rest)"

text \<open>
  \<^verbatim>\<open>base64.b64decode\<close> on padded text: four characters give three bytes, and padding
  is accepted in the last group only. \<open>None\<close> is \<^verbatim>\<open>binascii.Error\<close>.
\<close>

fun b64decode :: "string \<Rightarrow> bytes option" where
  "b64decode [] = Some []"
| "b64decode (c0 # c1 # c2 # c3 # rest) =
     (case (b64_value c0, b64_value c1) of
        (Some v0, Some v1) \<Rightarrow>
          if c2 = CHR ''='' \<and> c3 = CHR ''='' \<and> rest = []
          then Some [of_nat ((v0 * 64 + v1) div 16)]
          else
            (case b64_value c2 of
               None \<Rightarrow> None
             | Some v2 \<Rightarrow>
                 if c3 = CHR ''='' \<and> rest = []
                 then Some [of_nat (((v0 * 64 + v1) * 64 + v2) div 1024),
                            of_nat (((v0 * 64 + v1) * 64 + v2) div 4 mod 256)]
                 else
                   (case b64_value c3 of
                      None \<Rightarrow> None
                    | Some v3 \<Rightarrow>
                        (case b64decode rest of
                           None \<Rightarrow> None
                         | Some bs \<Rightarrow>
                             Some (of_nat ((((v0 * 64 + v1) * 64 + v2) * 64 + v3) div 65536)
                                 # of_nat ((((v0 * 64 + v1) * 64 + v2) * 64 + v3) div 256 mod 256)
                                 # of_nat ((((v0 * 64 + v1) * 64 + v2) * 64 + v3) mod 256)
                                 # bs))))
      | _ \<Rightarrow> None)"
| "b64decode _ = None"

subsection \<open>Files\<close>

definition open_rb :: "path \<Rightarrow> bytes py" where
  \<comment> \<open>\<^verbatim>\<open>open(p, "rb")\<close> and the read of the whole file.\<close>
  "open_rb p = (\<lambda>s.
     if fs_dirs (fs s) p \<noteq> None then (Inl IsADirectoryError, s)
     else (case fs_data (fs s) p of
             None \<Rightarrow> (Inl FileNotFoundError, s)
           | Some b \<Rightarrow> (Inr b, s)))"

definition add_entry :: "filesystem \<Rightarrow> path \<Rightarrow> filesystem" where
  \<comment> \<open>List a new name in its directory.\<close>
  "add_entry f p =
     (case fs_dirs f (dirname p) of
        None \<Rightarrow> f
      | Some names \<Rightarrow>
          f\<lparr>fs_dirs := (fs_dirs f)(dirname p \<mapsto>
               (if basename p \<in> set names then names else names @ [basename p]))\<rparr>)"

definition write_file :: "path \<Rightarrow> bytes \<Rightarrow> unit py" where
  \<comment> \<open>Create or replace the file \<open>p\<close>; its directory must exist.\<close>
  "write_file p b = (\<lambda>s.
     if fs_dirs (fs s) p \<noteq> None then (Inl IsADirectoryError, s)
     else if fs_dirs (fs s) (dirname p) = None then (Inl FileNotFoundError, s)
     else (Inr (), s\<lparr>fs := add_entry ((fs s)\<lparr>fs_data := (fs_data (fs s))(p \<mapsto> b)\<rparr>) p\<rparr>))"

definition makedirs_exist_ok :: "path \<Rightarrow> unit py" where
  \<comment> \<open>\<^verbatim>\<open>os.makedirs(p, exist_ok=True)\<close> for a folder of one component.\<close>
  "makedirs_exist_ok p = (\<lambda>s.
     if fs_dirs (fs s) p \<noteq> None then (Inr (), s)
     else if fs_data (fs s) p \<noteq> None then (Inl FileExistsError, s)
     else (Inr (), s\<lparr>fs := add_entry ((fs s)\<lparr>fs_dirs := (fs_dirs (fs s))(p \<mapsto> [])\<rparr>) p\<rparr>))"

definition path_exists :: "path \<Rightarrow> bool py" where
  "path_exists p = (\<lambda>s. (Inr (fs_dirs (fs s) p \<noteq> None \<or> fs_data (fs s) p \<noteq> None), s))"

definition listdir :: "path \<Rightarrow> string list py" where
  "listdir p = (\<lambda>s.
     case fs_dirs (fs s) p of
       Some names \<Rightarrow> (Inr names, s)
     | None \<Rightarrow>
         if fs_data (fs s) p \<noteq> None then (Inl NotADirectoryError, s)
         else (Inl FileNotFoundError, s))"

definition shutil_copy :: "path \<Rightarrow> path \<Rightarrow> unit py" where
  \<comment> \<open>\<^verbatim>\<open>shutil.copy(src, dst)\<close>: into \<open>dst\<close> when it is a directory; a file is not copied
      onto itself.\<close>
  "shutil_copy src dst = (\<lambda>s.
     let target = (if fs_dirs (fs s) dst \<noteq> None then path_join dst (basename src) else dst)
     in if src = target \<and> fs_data (fs s) src \<noteq> None then (Inl SameFileError, s)
        else py_bind (open_rb src) (\<lambda>b. write_file target b) s)"

subsection \<open>Pillow and requests\<close>

definition Image_open :: "world \<Rightarrow> path \<Rightarrow> image py" where
  \<comment> \<open>\<^verbatim>\<open>Image.open(p)\<close> followed by \<^verbatim>\<open>ImageDraw.Draw(image)\<close>.\<close>
  "Image_open W p =
     py_bind (open_rb p) (\<lambda>b.
       case image_open W b of
         Inl e \<Rightarrow> py_raise e
       | Inr wh \<Rightarrow> py_return \<lparr>img_src = b, img_size = wh, img_ops = []\<rparr>)"

definition draw :: "world \<Rightarrow> image \<Rightarrow> draw_op \<Rightarrow> py_error + image" where
  "draw W img d =
     (case image_draw W img d of
        Some e \<Rightarrow> Inl e
      | None \<Rightarrow> Inr (img\<lparr>img_ops := img_ops img @ [d]\<rparr>))"

text \<open>
  \<^verbatim>\<open>image.save(p)\<close> opens \<open>p\<close> for writing, which empties a file that is there, and then
  runs the encoder. The world's \<open>image_save\<close> is the encoder: \<open>Inr b\<close> when it writes the
  bytes \<open>b\<close>, \<open>Inl (e, written)\<close> when it raises \<open>e\<close> after it has written \<open>written\<close>. When
  the encoder raises, Pillow removes the file if the call created it, and leaves a file
  that was there before with what the encoder wrote.
\<close>

definition Image_save :: "world \<Rightarrow> image \<Rightarrow> path \<Rightarrow> unit py" where
  "Image_save W img p = (\<lambda>s.
     if fs_dirs (fs s) p \<noteq> None then (Inl IsADirectoryError, s)
     else if fs_dirs (fs s) (dirname p) = None then (Inl FileNotFoundError, s)
     else
       (case image_save W img of
          Inr b \<Rightarrow> write_file p b s
        | Inl (e, written) \<Rightarrow>
            if fs_data (fs s) p = None then (Inl e, s)
            else (Inl e, s\<lparr>fs := (fs s)\<lparr>fs_data := (fs_data (fs s))(p \<mapsto> written)\<rparr>\<rparr>)))"

definition response_json :: "response \<Rightarrow> py_error + json" where
  \<comment> \<open>\<^verbatim>\<open>resp.json()\<close>\<close>
  "response_json resp = (case resp_json resp of None \<Rightarrow> Inl JSONDecodeError | Some v \<Rightarrow> Inr v)"

definition is_OSError :: "py_error \<Rightarrow> bool" where
  \<comment> \<open>The exceptions \<^verbatim>\<open>except IOError\<close> catches.\<close>
  "is_OSError e =
     (e = OSError \<or> e = FileNotFoundError \<or> e = IsADirectoryError \<or> e = NotADirectoryError
      \<or> e = FileExistsError \<or> e = SameFileError \<or> e = UnidentifiedImageError
      \<or> e = RequestException)"

section \<open>The script\<close>

definition BASE_URL :: string where "BASE_URL = []"
definition INPUT_FOLDER :: string where "INPUT_FOLDER = ''input_images''"
definition FONT_PATH :: string where "FONT_PATH = ''AI_Model/Fonts/THSarabunNew BoldItalic.ttf''"
definition OUTPUT_FOLDER :: string where "OUTPUT_FOLDER = ''labelme_output''"
definition username :: string where "username = []"
definition password :: string where "password = []"

definition generate_labelme_json :: "path \<Rightarrow> json list \<Rightarrow> nat \<Rightarrow> nat \<Rightarrow> json py" where
  "generate_labelme_json image_path shapes image_width image_height =
     py_bind (open_rb image_path) (\<lambda>f.
       let image_data = b64encode f
       in py_return
            (JObj [(''version'', JStr ''5.0.1''),
                   (''flags'', JObj []),
                   (''shapes'', JList shapes),
                   (''imagePath'', JStr (basename image_path)),
                   (''imageData'', JStr image_data),
                   (''imageWidth'', JInt (int image_width)),
                   (''imageHeight'', JInt (int image_height))]))"

text \<open>The body of \<^verbatim>\<open>for pred in predictions\<close>, once for every prediction in order.\<close>

fun draw_predictions ::
  "world \<Rightarrow> font \<Rightarrow> json list \<Rightarrow> image \<Rightarrow> json list \<Rightarrow> (image \<times> json list) py" where
  "draw_predictions W font [] img shapes = py_return (img, shapes)"
| "draw_predictions W font (pred # rest) img shapes =
     py_bind (py_lift (py_getitem pred ''x'')) (\<lambda>x.
     py_bind (py_lift (py_getitem pred ''y'')) (\<lambda>y.
     py_bind (py_lift (py_getitem pred ''w'')) (\<lambda>w.
     py_bind (py_lift (py_getitem pred ''h'')) (\<lambda>h.
     py_bind (py_lift (py_getitem pred ''class_name'')) (\<lambda>class_name.
     py_bind (py_lift (py_getitem pred ''confidence'')) (\<lambda>confidence.
     py_bind (get_color_for_class W class_name) (\<lambda>color.
     py_bind (py_lift (py_add W x w)) (\<lambda>x1.
     py_bind (py_lift (py_add W y h)) (\<lambda>y1.
     py_bind (py_lift (draw W img (Rectangle x y x1 y1 color 2))) (\<lambda>img1.
     py_bind (py_lift (py_format_2f W confidence)) (\<lambda>confidence_text.
     py_bind (py_lift (py_sub W y (JInt 20))) (\<lambda>y_text.
     py_bind (py_lift (draw W img1
                (DrawText x y_text class_name confidence_text font color))) (\<lambda>img2.
     py_bind (py_lift (py_add W x w)) (\<lambda>x2.
     py_bind (py_lift (py_add W y h)) (\<lambda>y2.
     draw_predictions W font rest img2
       (shapes @ [shape_record class_name x y x2 y2]))))))))))))))))"

definition py_try :: "'a py \<Rightarrow> (py_error + 'a) py" where
  \<comment> \<open>The body of a \<^verbatim>\<open>try\<close>: what it raised or returned, for the handlers to inspect.\<close>
  "py_try m = (\<lambda>s. case m s of (r, s') \<Rightarrow> (Inr r, s'))"

definition process_image :: "world \<Rightarrow> path \<Rightarrow> string \<Rightarrow> json \<Rightarrow> font \<Rightarrow> unit py" where
  "process_image W image_path prediction_url headers font =
     py_bind (py_print (ProcessingImage image_path)) (\<lambda>_.
     py_bind (py_try
        (py_bind (open_rb image_path) (\<lambda>f.
           py_lift (post_files W prediction_url headers (basename image_path) f)))) (\<lambda>r.
     case r of
       Inl e \<Rightarrow>
         if e = FileNotFoundError then py_print (ImageNotFound image_path) else py_raise e
     | Inr resp \<Rightarrow>
         if status_code resp \<noteq> 201
         then py_print (PredictionFailed image_path (resp_text resp))
         else
           py_bind (py_lift (response_json resp)) (\<lambda>body.
           py_bind (py_lift (py_get body ''result'' (JList []))) (\<lambda>predictions.
           py_bind (py_lift (py_len predictions)) (\<lambda>n.
           py_bind (py_print (Received n (basename image_path))) (\<lambda>_.
           py_bind (py_lift (response_json resp)) (\<lambda>body'.
           py_bind (py_lift (py_get body' ''image_info'' (JList []))) (\<lambda>image_info.
           py_bind (py_print (ImageInfo image_info)) (\<lambda>_.
           py_bind (Image_open W image_path) (\<lambda>img0.
           py_bind (py_lift (py_iter predictions)) (\<lambda>preds.
           py_bind (draw_predictions W font preds img0 []) (\<lambda>(img, shapes).
           let base_name = fst (splitext (basename image_path));
               output_image_path = path_join OUTPUT_FOLDER (base_name @ ''_prediction.jpg'')
           in
           py_bind (Image_save W img output_image_path) (\<lambda>_.
           py_bind (py_print (SavedPreview output_image_path)) (\<lambda>_.
           py_bind (generate_labelme_json image_path shapes
                      (fst (img_size img)) (snd (img_size img))) (\<lambda>labelme_json.
           let json_filename = path_join OUTPUT_FOLDER (base_name @ ''.json'')
           in
           py_bind (write_file json_filename (json_dump W labelme_json)) (\<lambda>_.
           py_bind (py_print (SavedJson json_filename)) (\<lambda>_.
           let image_copy_path = path_join OUTPUT_FOLDER (basename image_path)
           in
           py_bind (shutil_copy image_path image_copy_path) (\<lambda>_.
           py_print (Copied image_copy_path)))))))))))))))))))"

definition allowed_extensions :: "string list" where
  "allowed_extensions = [''.png'', ''.jpg'', ''.jpeg'']"

definition load_font :: "world \<Rightarrow> font py" where
  \<comment> \<open>The \<^verbatim>\<open>try\<close> around \<^verbatim>\<open>ImageFont.truetype\<close>, with its fallback.\<close>
  "load_font W =
     (case truetype W FONT_PATH 16 of
        None \<Rightarrow> py_return (TrueType FONT_PATH 16)
      | Some e \<Rightarrow>
          if is_OSError e
          then py_bind (py_print FontWarning) (\<lambda>_. py_return DefaultFont)
          else py_raise e)"

text \<open>The loop \<^verbatim>\<open>for image_file in image_files\<close> of \<^verbatim>\<open>main\<close>.\<close>

fun main_loop :: "world \<Rightarrow> string \<Rightarrow> json \<Rightarrow> font \<Rightarrow> string list \<Rightarrow> unit py" where
  "main_loop W prediction_url headers font [] = py_return ()"
| "main_loop W prediction_url headers font (image_file # rest) =
     py_bind (process_image W (path_join INPUT_FOLDER image_file) prediction_url headers font)
       (\<lambda>_. main_loop W prediction_url headers font rest)"

definition main :: "world \<Rightarrow> unit py" where
  "main W =
     (let login_url = BASE_URL @ ''/login'';
          credentials = [(''username'', username), (''password'', password)]
      in
      py_bind (py_print LoggingIn) (\<lambda>_.
      py_bind (py_lift (post_json W login_url credentials)) (\<lambda>resp.
      if status_code resp \<noteq> 200 then py_print (LoginFailed (resp_text resp))
      else
        py_bind (py_lift (response_json resp)) (\<lambda>body.
        py_bind (py_lift (py_get body ''access_token'' JNull)) (\<lambda>access_token.
        if \<not> py_truthy W access_token then py_print TokenNotFound
        else
          py_bind (py_print LoginSuccessful) (\<lambda>_.
          py_bind (makedirs_exist_ok OUTPUT_FOLDER) (\<lambda>_.
          let prediction_url = BASE_URL @ ''/predictionbox'';
              headers = access_token
          in
          py_bind (load_font W) (\<lambda>font.
          py_bind (path_exists INPUT_FOLDER) (\<lambda>found.
          if \<not> found then py_print (InputFolderMissing INPUT_FOLDER)
          else
            py_bind (listdir INPUT_FOLDER) (\<lambda>names.
            let image_files =
                  filter (\<lambda>f. list_ex (endswith (lower f)) allowed_extensions) names
            in
            if image_files = [] then py_print (NoImageFiles INPUT_FOLDER)
            else main_loop W prediction_url headers font image_files))))))))))"

section \<open>Notions the statements use\<close>

subsection \<open>Successive calls of the colour registry\<close>

text \<open>
  The colours a run gets when it asks for the classes \<open>ns\<close> one after the other, and the
  state it is left in.
\<close>

fun color_calls ::
  "world \<Rightarrow> json list \<Rightarrow> pystate \<Rightarrow> (py_error + rgb) list \<times> pystate" where
  "color_calls W [] s = ([], s)"
| "color_calls W (n # ns) s =
     (case get_color_for_class W n s of
        (r, s1) \<Rightarrow> (case color_calls W ns s1 of (rs, s2) \<Rightarrow> (r # rs, s2)))"

text \<open>The distinct elements of a list in the order of their first occurrence.\<close>

fun first_seen_from :: "'a list \<Rightarrow> 'a list \<Rightarrow> 'a list" where
  "first_seen_from seen [] = seen"
| "first_seen_from seen (n # ns) =
     first_seen_from (if n \<in> set seen then seen else seen @ [n]) ns"

definition first_seen :: "'a list \<Rightarrow> 'a list" where
  "first_seen ns = first_seen_from [] ns"

text \<open>
  The invariant of \<open>class_colors\<close>: no key twice, and the entry at position \<open>k\<close> holds
  the palette colour \<open>k mod 12\<close>.
\<close>

definition registry_ok :: "(json \<times> rgb) list \<Rightarrow> bool" where
  "registry_ok cc =
     (distinct (map fst cc) \<and>
      map snd cc = map (\<lambda>k. color_palette ! (k mod 12)) [0 ..< length cc])"

subsection \<open>A concrete service and folder\<close>

text \<open>
  A prediction service that finds a cat in \<open>a.jpg\<close> and a dog and a cat in \<open>a.png\<close>,
  answers 500 for \<open>b.png\<close>, answers 201 with a body that is not JSON for \<open>c.JPEG\<close>, finds
  nothing in \<open>d.png\<close>, returns a record without \<open>x\<close> for \<open>e.jpg\<close>, and a complete record
  followed by one without \<open>h\<close> for \<open>f.png\<close>; a Pillow that opens, draws and saves
  everything; no custom font.
\<close>

definition detection :: "int \<Rightarrow> int \<Rightarrow> int \<Rightarrow> int \<Rightarrow> string \<Rightarrow> pyfloat \<Rightarrow> json" where
  "detection x y w h class_name confidence =
     JObj [(''x'', JInt x), (''y'', JInt y), (''w'', JInt w), (''h'', JInt h),
           (''class_name'', JStr class_name), (''confidence'', JFloat confidence)]"

definition demo_predict :: "string \<Rightarrow> py_error + response" where
  "demo_predict name =
     (if name = ''a.jpg'' then
        Inr \<lparr>status_code = 201, resp_text = [],
             resp_json = Some (JObj [(''result'',
               JList [detection 10 10 50 50 ''cat'' 0x3FEBD70A3D70A3D7])])\<rparr>
      else if name = ''a.png'' then
        Inr \<lparr>status_code = 201, resp_text = [],
             resp_json = Some (JObj [(''result'',
               JList [detection 1 2 3 4 ''dog'' 0x3FE0000000000000,
                      detection 5 6 7 8 ''cat'' 0x3FEBD70A3D70A3D7]),
               (''image_info'', JStr ''png'')])\<rparr>
      else if name = ''b.png'' then
        Inr \<lparr>status_code = 500, resp_text = ''Internal Server Error'', resp_json = None\<rparr>
      else if name = ''c.JPEG'' then
        Inr \<lparr>status_code = 201, resp_text = ''<html>'', resp_json = None\<rparr>
      else if name = ''d.png'' then
        Inr \<lparr>status_code = 201, resp_text = [], resp_json = Some (JObj [])\<rparr>
      else if name = ''e.jpg'' then
        Inr \<lparr>status_code = 201, resp_text = [],
             resp_json = Some (JObj [(''result'',
               JList [JObj [(''y'', JInt 10), (''w'', JInt 50), (''h'', JInt 50),
                            (''class_name'', JStr ''cat''),
                            (''confidence'', JFloat 0x3FEBD70A3D70A3D7)]])])\<rparr>
      else if name = ''f.png'' then
        Inr \<lparr>status_code = 201, resp_text = [],
             resp_json = Some (JObj [(''result'',
               JList [detection 1 2 3 4 ''dog'' 0x3FE0000000000000,
                      JObj [(''x'', JInt 5), (''y'', JInt 6), (''w'', JInt 7),
                            (''class_name'', JStr ''cat''),
                            (''confidence'', JFloat 0x3FEBD70A3D70A3D7)]])])\<rparr>
      else Inl RequestException)"

definition demo_world :: world where
  "demo_world = \<lparr>
     post_json = (\<lambda>url credentials.
        Inr \<lparr>status_code = 200, resp_text = [],
             resp_json = Some (JObj [(''access_token'', JStr ''t0'')])\<rparr>),
     post_files = (\<lambda>url headers name f. demo_predict name),
     truetype = (\<lambda>p n. Some OSError),
     image_open = (\<lambda>b. Inr (640, 480)),
     image_draw = (\<lambda>i d. None),
     image_save = (\<lambda>i. Inr (of_nat (length (img_ops i)) # img_src i)),
     json_dump = (\<lambda>j. case j of JObj (v # fl # (k, JList shapes) # _) \<Rightarrow>
                           [of_nat (length shapes)] | _ \<Rightarrow> []),
     float_add = (\<lambda>a b. Inr a),
     float_sub = (\<lambda>a b. Inr a),
     format_2f = (\<lambda>v. Inr ''0.87''),
     float_key = JFloat\<rparr>"

text \<open>The same service behind a login that answers 401, and one that sends an empty token.\<close>

definition denied_world :: world where
  "denied_world = demo_world\<lparr>post_json := (\<lambda>url credentials.
     Inr \<lparr>status_code = 401, resp_text = ''Unauthorized'', resp_json = None\<rparr>)\<rparr>"

definition empty_token_world :: world where
  "empty_token_world = demo_world\<lparr>post_json := (\<lambda>url credentials.
     Inr \<lparr>status_code = 200, resp_text = [],
          resp_json = Some (JObj [(''access_token'', JStr [])])\<rparr>)\<rparr>"

text \<open>
  The same service with a Pillow that cannot write its images as JPEG, as Pillow cannot
  for an image with an alpha channel: the encoder raises before it has written anything.
\<close>

definition alpha_world :: world where
  "alpha_world = demo_world\<lparr>image_save := (\<lambda>i. Inl (OSError, []))\<rparr>"

text \<open>
  A working directory with the input folder and no output folder yet, and the same
  directory once \<^verbatim>\<open>main\<close> has made the output folder.
\<close>

definition demo_files :: "path \<rightharpoonup> bytes" where
  "demo_files =
     [''input_images/a.jpg'' \<mapsto> [1, 2, 3, 4],
      ''input_images/a.png'' \<mapsto> [9, 8, 7],
      ''input_images/b.png'' \<mapsto> [5],
      ''input_images/c.JPEG'' \<mapsto> [6],
      ''input_images/d.png'' \<mapsto> [7, 7],
      ''input_images/e.jpg'' \<mapsto> [8],
      ''input_images/f.png'' \<mapsto> [4, 2]]"

definition demo_state :: pystate where
  "demo_state = \<lparr>
     fs = \<lparr>fs_dirs = [[] \<mapsto> [''input_images''],
                      ''input_images'' \<mapsto> [''a.jpg'', ''b.png'', ''c.JPEG'', ''d.png'', ''notes.txt'']],
           fs_data = demo_files\<rparr>,
     class_colors = [],
     stdout = []\<rparr>"

definition ready_state :: pystate where
  "ready_state = \<lparr>
     fs = \<lparr>fs_dirs = [[] \<mapsto> [''input_images'', ''labelme_output''],
                      ''input_images'' \<mapsto> [''a.jpg'', ''b.png'', ''c.JPEG'', ''d.png'', ''notes.txt''],
                      ''labelme_output'' \<mapsto> []],
           fs_data = demo_files\<rparr>,
     class_colors = [],
     stdout = []\<rparr>"

definition thirteen_names :: "string list" where
  "thirteen_names =
     [''n01'', ''n02'', ''n03'', ''n04'', ''n05'', ''n06'', ''n01'', ''n07'', ''n08'', ''n09'',
      ''n10'', ''n11'', ''n12'', ''n13'']"

subsection \<open>Where \<^verbatim>\<open>process_image\<close> writes, and what\<close>

text \<open>
  The three paths \<^verbatim>\<open>process_image\<close> computes from \<open>image_path\<close>, and the dict
  \<^verbatim>\<open>generate_labelme_json\<close> builds from the bytes \<open>f\<close> of the file.
\<close>

definition output_image_path :: "path \<Rightarrow> path" where
  "output_image_path image_path =
     path_join OUTPUT_FOLDER (fst (splitext (basename image_path)) @ ''_prediction.jpg'')"

definition json_filename :: "path \<Rightarrow> path" where
  "json_filename image_path =
     path_join OUTPUT_FOLDER (fst (splitext (basename image_path)) @ ''.json'')"

definition image_copy_path :: "path \<Rightarrow> path" where
  "image_copy_path image_path = path_join OUTPUT_FOLDER (basename image_path)"

definition labelme_document :: "path \<Rightarrow> bytes \<Rightarrow> json list \<Rightarrow> nat \<times> nat \<Rightarrow> json" where
  "labelme_document image_path f shapes wh =
     JObj [(''version'', JStr ''5.0.1''),
           (''flags'', JObj []),
           (''shapes'', JList shapes),
           (''imagePath'', JStr (basename image_path)),
           (''imageData'', JStr (b64encode f)),
           (''imageWidth'', JInt (int (fst wh))),
           (''imageHeight'', JInt (int (snd wh)))]"

text \<open>A statement that leaves the files and the printed lines as they were.\<close>

definition keeps_files :: "'a py \<Rightarrow> bool" where
  "keeps_files m = (\<forall>s r s'. m s = (r, s') \<longrightarrow> fs s' = fs s \<and> stdout s' = stdout s)"

subsection \<open>Detection Records of the data model\<close>

text \<open>
  A prediction with integer \<open>x\<close>, \<open>y\<close>, \<open>w\<close>, \<open>h\<close>, a string \<open>class_name\<close> and a float
  \<open>confidence\<close>.
\<close>

definition has_int :: "json \<Rightarrow> string \<Rightarrow> bool" where
  "has_int pred k = (case py_getitem pred k of Inr (JInt _) \<Rightarrow> True | _ \<Rightarrow> False)"

definition typed_detection :: "json \<Rightarrow> bool" where
  "typed_detection pred =
     (has_int pred ''x'' \<and> has_int pred ''y'' \<and> has_int pred ''w'' \<and> has_int pred ''h'' \<and>
      (case py_getitem pred ''class_name'' of Inr (JStr _) \<Rightarrow> True | _ \<Rightarrow> False) \<and>
      (case py_getitem pred ''confidence'' of Inr (JFloat _) \<Rightarrow> True | _ \<Rightarrow> False))"


section \<open>The colour registry\<close>

lemma length_color_palette: "length color_palette = 12"
  by (simp add: color_palette_def)

lemma in_keys_iff: "(k \<in> fst ` set cc) = (map_of cc k \<noteq> None)"
  by (simp add: map_of_eq_None_iff)

lemma get_color_for_class_JStr:
  "get_color_for_class W (JStr n) s =
     (case map_of (class_colors s) (JStr n) of
        Some c \<Rightarrow> (Inr c, s)
      | None \<Rightarrow>
          (Inr (color_palette ! (length (class_colors s) mod 12)),
           s\<lparr>class_colors := class_colors s @
                [(JStr n, color_palette ! (length (class_colors s) mod 12))]\<rparr>))"
  by (simp add: get_color_for_class_def dict_key_def length_color_palette Let_def
      split: option.split)

lemma set_first_seen_from: "set (first_seen_from seen ns) = set seen \<union> set ns"
  by (induction ns arbitrary: seen) auto

lemma distinct_first_seen_from: "distinct seen \<Longrightarrow> distinct (first_seen_from seen ns)"
  by (induction ns arbitrary: seen) auto

lemma first_seen_from_map:
  "inj f \<Longrightarrow> first_seen_from (map f seen) (map f ns) = map f (first_seen_from seen ns)"
proof (induction ns arbitrary: seen)
  case Nil
  then show ?case by simp
next
  case (Cons n ns)
  have "(f n \<in> f ` set seen) = (n \<in> set seen)"
    using Cons.prems by (auto dest: injD)
  moreover have "map f seen @ [f n] = map f (seen @ [n])" by simp
  ultimately show ?case
    using Cons.IH [OF Cons.prems, of "seen @ [n]"] Cons.IH [OF Cons.prems, of seen]
    by (simp del: map_append)
qed

lemma registry_step:
  assumes ok: "registry_ok (class_colors s)"
    and call: "get_color_for_class W (JStr n) s = (r, s1)"
  shows "registry_ok (class_colors s1)"
    and "map fst (class_colors s1) =
           (if JStr n \<in> set (map fst (class_colors s)) then map fst (class_colors s)
            else map fst (class_colors s) @ [JStr n])"
    and "r = Inr (the (map_of (class_colors s1) (JStr n)))"
    and "\<exists>ys. class_colors s1 = class_colors s @ ys"
proof -
  show "registry_ok (class_colors s1)"
    using ok call
    by (auto simp: get_color_for_class_JStr registry_ok_def map_of_eq_None_iff
        split: option.splits)
  show "map fst (class_colors s1) =
           (if JStr n \<in> set (map fst (class_colors s)) then map fst (class_colors s)
            else map fst (class_colors s) @ [JStr n])"
    using call
    by (auto simp: get_color_for_class_JStr in_keys_iff split: option.splits)
  show "r = Inr (the (map_of (class_colors s1) (JStr n)))"
    using call
    by (auto simp: get_color_for_class_JStr map_add_def split: option.splits)
  show "\<exists>ys. class_colors s1 = class_colors s @ ys"
    using call
    by (auto simp: get_color_for_class_JStr split: option.splits)
qed


lemma map_of_append_left:
  "map_of xs k \<noteq> None \<Longrightarrow> map_of (xs @ ys) k = map_of xs k"
  by (auto simp: map_add_def split: option.splits)

lemma registry_calls:
  assumes "registry_ok (class_colors s)"
    and "color_calls W (map JStr ns) s = (rs, s')"
  shows "registry_ok (class_colors s') \<and>
         map fst (class_colors s') = first_seen_from (map fst (class_colors s)) (map JStr ns) \<and>
         rs = map (\<lambda>n. Inr (the (map_of (class_colors s') (JStr n)))) ns \<and>
         (\<exists>ys. class_colors s' = class_colors s @ ys)"
  using assms
proof (induction ns arbitrary: s rs s')
  case Nil
  then show ?case by simp
next
  case (Cons n ns)
  obtain r s1 where call: "get_color_for_class W (JStr n) s = (r, s1)"
    by (cases "get_color_for_class W (JStr n) s")
  obtain rs1 s2 where calls: "color_calls W (map JStr ns) s1 = (rs1, s2)"
    by (cases "color_calls W (map JStr ns) s1")
  have res: "rs = r # rs1" "s' = s2"
    using Cons.prems(2) call calls by simp_all
  note step = registry_step [OF Cons.prems(1) call]
  note ih = Cons.IH [OF step(1) calls]
  obtain ys where ys: "class_colors s2 = class_colors s1 @ ys"
    using ih by blast
  obtain zs where zs: "class_colors s1 = class_colors s @ zs"
    using step(4) by blast
  have "JStr n \<in> set (map fst (class_colors s1))"
    unfolding step(2) by simp
  then have key: "map_of (class_colors s1) (JStr n) \<noteq> None"
    by (simp add: map_of_eq_None_iff)
  have "r = Inr (the (map_of (class_colors s2) (JStr n)))"
    using step(3) map_of_append_left [OF key, of ys] ys by simp
  moreover have "map fst (class_colors s2) =
      first_seen_from (map fst (class_colors s)) (map JStr (n # ns))"
    using ih step(2) by simp
  moreover have "\<exists>us. class_colors s2 = class_colors s @ us"
    using ys zs by simp
  ultimately show ?case
    using ih res by simp
qed


lemma registry_nth:
  assumes "registry_ok cc" and "k < length cc"
  shows "map_of cc (map fst cc ! k) = Some (color_palette ! (k mod 12))"
proof -
  have "map snd cc ! k = map (\<lambda>k. color_palette ! (k mod 12)) [0 ..< length cc] ! k"
    using assms(1) by (simp add: registry_ok_def)
  then have "snd (cc ! k) = color_palette ! (k mod 12)"
    using assms(2) by simp
  moreover have "cc ! k \<in> set cc"
    using assms(2) by simp
  ultimately have "(fst (cc ! k), color_palette ! (k mod 12)) \<in> set cc"
    by (metis prod.collapse)
  moreover have "distinct (map fst cc)"
    using assms(1) by (simp add: registry_ok_def)
  ultimately show ?thesis
    using assms(2) by simp
qed

lemma distinct_color_palette: "distinct color_palette"
  by (simp add: color_palette_def)

lemma registry_ok_Nil: "registry_ok []"
  by (simp add: registry_ok_def)

lemma get_color_for_class_again:
  assumes "get_color_for_class W (JStr n) t = (Inr c, t')"
  shows "get_color_for_class W (JStr n) t' = (Inr c, t')"
  using assms
  by (auto simp: get_color_for_class_JStr map_add_def split: option.splits)

text \<open>
  Claim C3. In a run that starts with an empty registry and asks for the classes
  \<open>names\<close> in this order: every call returns the palette colour \<open>k mod 12\<close>, where
  \<open>k\<close> is the number of distinct classes seen before the class was first asked for;
  the same name gets the same colour every time; while at most 12 distinct names have
  been seen, different names get different colours; the 13th distinct name gets the
  colour of the 1st. From any state whatever, asking again for a name right after it
  was given a colour returns that colour and changes nothing.
\<close>

theorem get_color_for_class_registry:
  fixes names :: "string list"
  assumes empty: "class_colors s = []"
    and calls: "color_calls W (map JStr names) s = (cs, s')"
  shows "(\<forall>i<length names. \<exists>k<length (first_seen names).
            names ! i = first_seen names ! k \<and> cs ! i = Inr (color_palette ! (k mod 12)))
       \<and> (\<forall>i<length names. \<forall>j<length names. names ! i = names ! j \<longrightarrow> cs ! i = cs ! j)
       \<and> (length (first_seen names) \<le> 12 \<longrightarrow>
            (\<forall>i<length names. \<forall>j<length names. names ! i \<noteq> names ! j \<longrightarrow> cs ! i \<noteq> cs ! j))
       \<and> (12 < length (first_seen names) \<longrightarrow>
            (\<forall>i<length names. \<forall>j<length names.
               names ! i = first_seen names ! 12 \<and> names ! j = first_seen names ! 0 \<longrightarrow>
               cs ! i = cs ! j))
       \<and> (\<forall>t n c t'. get_color_for_class W (JStr n) t = (Inr c, t') \<longrightarrow>
            get_color_for_class W (JStr n) t' = (Inr c, t'))"
proof -
  let ?F = "first_seen names"
  let ?cc = "class_colors s'"
  have ok0: "registry_ok (class_colors s)"
    using empty by (simp add: registry_ok_Nil)
  have inj: "inj JStr"
    by (simp add: inj_def)
  from registry_calls [OF ok0 calls]
  have ok: "registry_ok ?cc"
    and keys0: "map fst ?cc = first_seen_from (map fst (class_colors s)) (map JStr names)"
    and cs: "cs = map (\<lambda>n. Inr (the (map_of ?cc (JStr n)))) names"
    by simp_all
  have keys: "map fst ?cc = map JStr ?F"
    using keys0 first_seen_from_map [OF inj, of "[]" names] empty
    by (simp add: first_seen_def)
  then have len: "length ?cc = length ?F"
    by (metis length_map)
  have dist: "distinct ?F"
    by (simp add: first_seen_def distinct_first_seen_from)
  have col: "map_of ?cc (JStr (?F ! k)) = Some (color_palette ! (k mod 12))"
    if "k < length ?F" for k
    using registry_nth [OF ok, of k] that len keys by simp
  have master: "\<exists>k<length ?F. names ! i = ?F ! k \<and> cs ! i = Inr (color_palette ! (k mod 12))"
    if i: "i < length names" for i
  proof -
    have "names ! i \<in> set ?F"
      using i by (simp add: first_seen_def set_first_seen_from)
    then obtain k where k: "k < length ?F" "?F ! k = names ! i"
      by (auto simp: in_set_conv_nth)
    have "cs ! i = Inr (the (map_of ?cc (JStr (names ! i))))"
      using i cs by simp
    then have "cs ! i = Inr (color_palette ! (k mod 12))"
      using col [OF k(1)] k(2) by simp
    then show ?thesis
      using k by auto
  qed
  have same: "cs ! i = cs ! j"
    if "i < length names" "j < length names" "names ! i = names ! j" for i j
    using that cs by simp
  have differ: "cs ! i \<noteq> cs ! j"
    if small: "length ?F \<le> 12" and i: "i < length names" and j: "j < length names"
      and ne: "names ! i \<noteq> names ! j" for i j
  proof -
    obtain k where k: "k < length ?F" "names ! i = ?F ! k"
      "cs ! i = Inr (color_palette ! (k mod 12))"
      using master [OF i] by blast
    obtain l where l: "l < length ?F" "names ! j = ?F ! l"
      "cs ! j = Inr (color_palette ! (l mod 12))"
      using master [OF j] by blast
    have "k \<noteq> l"
      using k(2) l(2) ne by auto
    moreover have "k < 12" "l < 12"
      using k(1) l(1) small by simp_all
    ultimately have "color_palette ! k \<noteq> color_palette ! l"
      using distinct_color_palette
      by (simp add: nth_eq_iff_index_eq length_color_palette)
    then show ?thesis
      using k(3) l(3) \<open>k < 12\<close> \<open>l < 12\<close> by simp
  qed
  have cycle: "cs ! i = cs ! j"
    if big: "12 < length ?F" and i: "i < length names" and j: "j < length names"
      and ni: "names ! i = ?F ! 12" and nj: "names ! j = ?F ! 0" for i j
  proof -
    obtain k where k: "k < length ?F" "names ! i = ?F ! k"
      "cs ! i = Inr (color_palette ! (k mod 12))"
      using master [OF i] by blast
    obtain l where l: "l < length ?F" "names ! j = ?F ! l"
      "cs ! j = Inr (color_palette ! (l mod 12))"
      using master [OF j] by blast
    have "?F ! k = ?F ! 12" "?F ! l = ?F ! 0"
      using k(2) l(2) ni nj by simp_all
    moreover have "0 < length ?F"
      using big by linarith
    ultimately have "k = 12" "l = 0"
      using nth_eq_iff_index_eq [OF dist k(1) big]
        nth_eq_iff_index_eq [OF dist l(1), of 0] by blast+
    then have "k mod 12 = l mod 12"
      by simp
    then show ?thesis
      using k(3) l(3) by simp
  qed
  show ?thesis
    using master same differ cycle get_color_for_class_again by blast
qed


theorem get_color_for_class_registry_witness:
  "class_colors demo_state = []
   \<and> length (first_seen thirteen_names) = 13
   \<and> fst (color_calls demo_world (map JStr thirteen_names) demo_state) ! 13 = Inr (255, 0, 0)
   \<and> fst (color_calls demo_world (map JStr thirteen_names) demo_state) ! 13 =
      fst (color_calls demo_world (map JStr thirteen_names) demo_state) ! 0"
proof -
  let ?cs = "fst (color_calls demo_world (map JStr thirteen_names) demo_state)"
  have h1: "class_colors demo_state = []"
    by (simp add: demo_state_def)
  have h2: "color_calls demo_world (map JStr thirteen_names) demo_state =
      (?cs, snd (color_calls demo_world (map JStr thirteen_names) demo_state))"
    by simp
  have seen: "first_seen thirteen_names =
      [''n01'', ''n02'', ''n03'', ''n04'', ''n05'', ''n06'', ''n07'', ''n08'', ''n09'', ''n10'',
       ''n11'', ''n12'', ''n13'']"
    by (simp add: first_seen_def thirteen_names_def)
  have idx: "thirteen_names ! 13 = first_seen thirteen_names ! 12"
    "thirteen_names ! 0 = first_seen thirteen_names ! 0" "length thirteen_names = 14"
    by (simp_all add: seen) (simp_all add: thirteen_names_def)
  note T = get_color_for_class_registry [OF h1 h2]
  have "12 < length (first_seen thirteen_names) \<longrightarrow>
      (\<forall>i<length thirteen_names. \<forall>j<length thirteen_names.
         thirteen_names ! i = first_seen thirteen_names ! 12 \<and>
         thirteen_names ! j = first_seen thirteen_names ! 0 \<longrightarrow> ?cs ! i = ?cs ! j)"
    using T by blast
  then have cyc: "?cs ! 13 = ?cs ! 0"
    using idx seen by simp
  have first: "?cs ! 0 = Inr (255, 0, 0)"
    by (simp add: thirteen_names_def get_color_for_class_JStr demo_state_def color_palette_def
        split: prod.splits)
  show ?thesis
    using h1 seen cyc first by simp
qed

section \<open>Running statements\<close>

lemmas py_defs = py_bind_def py_return_def py_raise_def py_lift_def py_print_def py_try_def

lemma py_bind_Inr_iff:
  "(py_bind m f s = (Inr y, s')) = (\<exists>x s1. m s = (Inr x, s1) \<and> f x s1 = (Inr y, s'))"
  by (auto simp: py_bind_def split: prod.splits sum.splits)

lemma py_lift_Inr_iff: "(py_lift r s = (Inr x, s1)) = (r = Inr x \<and> s1 = s)"
  by (auto simp: py_lift_def)

lemma py_return_iff: "(py_return x s = (r, s1)) = (r = Inr x \<and> s1 = s)"
  by (auto simp: py_return_def)

lemma py_print_iff:
  "(py_print m s = (r, s')) = (r = Inr () \<and> s' = s\<lparr>stdout := stdout s @ [m]\<rparr>)"
  by (auto simp: py_print_def)

lemma py_raise_Inr_iff: "(py_raise e s = (Inr x, s')) = False"
  by (simp add: py_raise_def)

lemma py_try_iff: "(py_try m s = (Inr r, s')) = (m s = (r, s'))"
  by (auto simp: py_try_def split: prod.splits)

lemma keeps_files_bind:
  assumes "keeps_files m" and "\<And>x. keeps_files (f x)"
  shows "keeps_files (py_bind m f)"
  unfolding keeps_files_def py_bind_def
proof (intro allI impI)
  fix s r s'
  assume run: "(case m s of (Inl e, s') \<Rightarrow> (Inl e, s') | (Inr x, s') \<Rightarrow> f x s') = (r, s')"
  obtain r1 s1 where m: "m s = (r1, s1)"
    by (cases "m s")
  have one: "fs s1 = fs s \<and> stdout s1 = stdout s"
    using assms(1) m by (simp add: keeps_files_def)
  show "fs s' = fs s \<and> stdout s' = stdout s"
  proof (cases r1)
    case (Inl e)
    then show ?thesis using run m one by simp
  next
    case (Inr x)
    then have "f x s1 = (r, s')"
      using run m by simp
    then have "fs s' = fs s1 \<and> stdout s' = stdout s1"
      using assms(2) [of x] by (simp add: keeps_files_def)
    then show ?thesis using one by simp
  qed
qed

lemma keeps_files_lift: "keeps_files (py_lift r)"
  by (simp add: keeps_files_def py_lift_def)

lemma keeps_files_return: "keeps_files (py_return x)"
  by (simp add: keeps_files_def py_return_def)




section \<open>Paths\<close>

lemma takeWhile_no_slash:
  "CHR ''/'' \<notin> set x \<Longrightarrow> takeWhile (\<lambda>c. c \<noteq> CHR ''/'') (rev x @ ys) = rev x @ takeWhile (\<lambda>c. c \<noteq> CHR ''/'') ys"
  by (rule takeWhile_append2) auto

lemma takeWhile_all: "\<forall>x\<in>set xs. P x \<Longrightarrow> takeWhile P xs = xs"
  by (simp add: takeWhile_eq_all_conv)

lemma basename_append_slash:
  "CHR ''/'' \<notin> set x \<Longrightarrow> basename (d @ CHR ''/'' # x) = x"
  using takeWhile_no_slash [of x "CHR ''/'' # rev d"]
  by (simp add: basename_def)

lemma basename_id:
  assumes "CHR ''/'' \<notin> set x"
  shows "basename x = x"
proof -
  have tw: "takeWhile (\<lambda>c. c \<noteq> CHR ''/'') (rev x) = rev x"
    by (rule takeWhile_all) (use assms in auto)
  show ?thesis
    unfolding basename_def tw by simp
qed

lemma path_join_INPUT:
  "CHR ''/'' \<notin> set x \<Longrightarrow> path_join INPUT_FOLDER x = ''input_images/'' @ x"
  by (cases x) (auto simp: path_join_def INPUT_FOLDER_def)

lemma path_join_OUTPUT:
  "CHR ''/'' \<notin> set x \<Longrightarrow> path_join OUTPUT_FOLDER x = ''labelme_output/'' @ x"
  by (cases x) (auto simp: path_join_def OUTPUT_FOLDER_def)

lemma basename_no_slash: "CHR ''/'' \<notin> set (basename p)"
  by (auto simp: basename_def dest: set_takeWhileD)

lemma basename_INPUT:
  "CHR ''/'' \<notin> set x \<Longrightarrow> basename (path_join INPUT_FOLDER x) = x"
  using basename_append_slash [of x "''input_images''"] by (simp add: path_join_INPUT)

lemma splitext_cases:
  assumes "CHR ''/'' \<notin> set b"
  shows "splitext b = (b, []) \<or>
         (\<exists>stem ext. b = stem @ CHR ''.'' # ext \<and> CHR ''.'' \<notin> set ext \<and>
            splitext b = (stem, CHR ''.'' # ext))"
proof -
  have name: "basename b = b"
    using assms by (rule basename_id)
  show ?thesis
  proof (cases "CHR ''.'' \<in> set b")
    case False
    then show ?thesis by (simp add: splitext_def name)
  next
    case True
    then have "CHR ''.'' \<in> set (rev b)" by simp
    then obtain ys zs where split: "rev b = ys @ CHR ''.'' # zs" "CHR ''.'' \<notin> set ys"
      by (meson split_list_first)
    have tw1: "takeWhile (\<lambda>c. c \<noteq> CHR ''.'') ys = ys"
      by (rule takeWhile_all) (use split(2) in auto)
    have tw2: "takeWhile (\<lambda>c. c \<noteq> CHR ''.'') (ys @ CHR ''.'' # zs) =
        takeWhile (\<lambda>c. c \<noteq> CHR ''.'') ys"
      by (rule takeWhile_tail) simp
    have tw: "takeWhile (\<lambda>c. c \<noteq> CHR ''.'') (rev b) = ys"
      unfolding split(1) tw2 tw1 by (rule refl)
    have "rev (rev b) = rev (ys @ CHR ''.'' # zs)"
      using split(1) by simp
    then have b: "b = rev zs @ CHR ''.'' # rev ys"
      by simp
    have n: "length b - length ys - 1 = length zs"
      by (subst b) simp
    have tk: "take (length zs) b = rev zs" "drop (length zs) b = CHR ''.'' # rev ys"
      by (subst b, simp)+
    show ?thesis
    proof (cases "list_all (\<lambda>c. c = CHR ''.'') (rev zs)")
      case True
      then show ?thesis
        using \<open>CHR ''.'' \<in> set b\<close> n tw tk
        by (simp add: splitext_def name Let_def)
    next
      case False
      have "splitext b = (rev zs, CHR ''.'' # rev ys)"
        using \<open>CHR ''.'' \<in> set b\<close> False n tw tk
        by (simp add: splitext_def name Let_def)
      then show ?thesis
        using b split(2) by auto
    qed
  qed
qed

section \<open>The output paths of an input file\<close>

lemma stem_no_slash:
  assumes "CHR ''/'' \<notin> set b"
  shows "CHR ''/'' \<notin> set (fst (splitext b))"
  using splitext_cases [OF assms] assms by auto

lemma stem_suffix_no_slash:
  "CHR ''/'' \<notin> set b \<Longrightarrow> CHR ''/'' \<notin> set (fst (splitext b) @ ''_prediction.jpg'')"
  "CHR ''/'' \<notin> set b \<Longrightarrow> CHR ''/'' \<notin> set (fst (splitext b) @ ''.json'')"
  using stem_no_slash [of b] by simp_all

lemma output_paths:
  assumes "CHR ''/'' \<notin> set image_file"
  shows "output_image_path (path_join INPUT_FOLDER image_file) =
           ''labelme_output/'' @ fst (splitext image_file) @ ''_prediction.jpg''"
    and "json_filename (path_join INPUT_FOLDER image_file) =
           ''labelme_output/'' @ fst (splitext image_file) @ ''.json''"
    and "image_copy_path (path_join INPUT_FOLDER image_file) = ''labelme_output/'' @ image_file"
  using assms stem_suffix_no_slash [OF assms]
  by (simp_all add: output_image_path_def json_filename_def image_copy_path_def
      basename_INPUT path_join_OUTPUT)

lemma dirname_OUTPUT:
  assumes "CHR ''/'' \<notin> set x"
  shows "dirname (''labelme_output/'' @ x) = OUTPUT_FOLDER"
proof -
  have "basename (''labelme_output'' @ CHR ''/'' # x) = x"
    using assms by (rule basename_append_slash)
  then have "basename (''labelme_output/'' @ x) = x"
    by simp
  then show ?thesis
    by (simp add: dirname_def OUTPUT_FOLDER_def)
qed

lemma endswith_last:
  assumes "endswith s suffix" and "suffix \<noteq> []"
  shows "last s = last suffix"
proof -
  have "s = take (length s - length suffix) s @ suffix"
    using assms(1) by (metis append_take_drop_id endswith_def)
  then show ?thesis
    using assms(2) by (metis last_append)
qed

lemma image_file_last:
  assumes "list_ex (endswith (lower image_file)) allowed_extensions"
  shows "image_file \<noteq> [] \<and> lower_char (last image_file) = CHR ''g''"
proof -
  from assms obtain e where e: "e \<in> set allowed_extensions" "endswith (lower image_file) e"
    by (auto simp: list_ex_iff)
  then have "e \<noteq> []" "last e = CHR ''g''"
    by (auto simp: allowed_extensions_def)
  then have l: "last (lower image_file) = CHR ''g''" "lower image_file \<noteq> []"
    using endswith_last [OF e(2)] e(2) by (auto simp: endswith_def)
  then have "image_file \<noteq> []"
    by (auto simp: lower_def)
  then show ?thesis
    using l(1) by (simp add: lower_def last_map)
qed

lemma outputs_apart:
  assumes "CHR ''/'' \<notin> set image_file"
  shows "path_join INPUT_FOLDER image_file \<noteq> output_image_path (path_join INPUT_FOLDER image_file)"
    and "path_join INPUT_FOLDER image_file \<noteq> json_filename (path_join INPUT_FOLDER image_file)"
    and "path_join INPUT_FOLDER image_file \<noteq> image_copy_path (path_join INPUT_FOLDER image_file)"
    and "output_image_path (path_join INPUT_FOLDER image_file) \<noteq>
         json_filename (path_join INPUT_FOLDER image_file)"
    and "output_image_path (path_join INPUT_FOLDER image_file) \<noteq>
         image_copy_path (path_join INPUT_FOLDER image_file)"
    and "list_ex (endswith (lower image_file)) allowed_extensions \<Longrightarrow>
         json_filename (path_join INPUT_FOLDER image_file) \<noteq>
         image_copy_path (path_join INPUT_FOLDER image_file)"
proof -
  note outs = output_paths [OF assms]
  note inp = path_join_INPUT [OF assms]
  show "path_join INPUT_FOLDER image_file \<noteq> output_image_path (path_join INPUT_FOLDER image_file)"
    and "path_join INPUT_FOLDER image_file \<noteq> json_filename (path_join INPUT_FOLDER image_file)"
    and "path_join INPUT_FOLDER image_file \<noteq> image_copy_path (path_join INPUT_FOLDER image_file)"
    and "output_image_path (path_join INPUT_FOLDER image_file) \<noteq>
         json_filename (path_join INPUT_FOLDER image_file)"
    by (simp_all only: outs) (simp_all add: inp)
  show "output_image_path (path_join INPUT_FOLDER image_file) \<noteq>
         image_copy_path (path_join INPUT_FOLDER image_file)"
    unfolding outs using splitext_cases [OF assms] by auto
  show "json_filename (path_join INPUT_FOLDER image_file) \<noteq>
         image_copy_path (path_join INPUT_FOLDER image_file)"
    if "list_ex (endswith (lower image_file)) allowed_extensions"
  proof
    assume "json_filename (path_join INPUT_FOLDER image_file) =
         image_copy_path (path_join INPUT_FOLDER image_file)"
    then have "image_file = fst (splitext image_file) @ ''.json''"
      unfolding outs by simp
    then have "last image_file = CHR ''n''"
      by (metis last_appendR last.simps list.distinct(1) last_ConsR)
    then show False
      using image_file_last [OF that] by (simp add: lower_char_def)
  qed
qed

section \<open>Base64\<close>

lemma b64_table:
  "list_all (\<lambda>i. b64_value (b64_char i) = Some i \<and> b64_char i \<noteq> CHR ''='') [0 ..< 64]"
  by code_simp

lemma b64_value_char: "i < 64 \<Longrightarrow> b64_value (b64_char i) = Some i"
  using b64_table by (simp add: list_all_iff)

lemma b64_char_not_pad: "i < 64 \<Longrightarrow> b64_char i \<noteq> CHR ''=''"
  using b64_table by (simp add: list_all_iff)

lemma sextets:
  fixes n :: nat
  shows "n div 262144 * 64 + n div 4096 mod 64 = n div 4096"
    and "n div 4096 * 64 + n div 64 mod 64 = n div 64"
    and "n div 64 * 64 + n mod 64 = n"
proof -
  have "n div 262144 = n div 4096 div 64" "n div 4096 = n div 64 div 64"
    by (simp_all add: div_mult2_eq [symmetric])
  then show "n div 262144 * 64 + n div 4096 mod 64 = n div 4096"
    and "n div 4096 * 64 + n div 64 mod 64 = n div 64"
    by simp_all
  show "n div 64 * 64 + n mod 64 = n"
    by simp
qed

lemma unat_byte: "unat (a :: byte) < 256"
  using unsigned_less [of a, where ?'a = nat] by simp

lemma group3:
  fixes a b c :: byte
  defines "n \<equiv> unat a * 65536 + unat b * 256 + unat c"
  shows "n div 262144 < 64"
    and "(of_nat (n div 65536) :: byte) = a"
    and "(of_nat (n div 256 mod 256) :: byte) = b"
    and "(of_nat (n mod 256) :: byte) = c"
proof -
  have bounds: "unat a < 256" "unat b < 256" "unat c < 256"
    by (rule unat_byte)+
  show "n div 262144 < 64"
    using bounds by (simp add: n_def)
  have "n div 65536 = unat a"
    using bounds by (simp add: n_def)
  then show "(of_nat (n div 65536) :: byte) = a"
    by simp
  have "n div 256 = unat a * 256 + unat b"
    using bounds by (simp add: n_def)
  then have "n div 256 mod 256 = unat b"
    using bounds by simp
  then show "(of_nat (n div 256 mod 256) :: byte) = b"
    by simp
  have "n = unat c + 256 * (unat a * 256 + unat b)"
    by (simp add: n_def)
  then have "n mod 256 = unat c"
    using bounds by (simp only: mod_mult_self2) simp
  then show "(of_nat (n mod 256) :: byte) = c"
    by simp
qed


lemma mod64: "(m::nat) mod 64 < 64"
  by simp

lemma b64decode_group:
  assumes v: "v0 < 64" "v1 < 64" "v2 < 64" "v3 < 64"
  shows "b64decode (b64_char v0 # b64_char v1 # b64_char v2 # b64_char v3 # rest) =
     (case b64decode rest of
        None \<Rightarrow> None
      | Some bs \<Rightarrow>
          Some (of_nat ((((v0 * 64 + v1) * 64 + v2) * 64 + v3) div 65536)
              # of_nat ((((v0 * 64 + v1) * 64 + v2) * 64 + v3) div 256 mod 256)
              # of_nat ((((v0 * 64 + v1) * 64 + v2) * 64 + v3) mod 256)
              # bs))"
  using v by (simp add: b64_value_char b64_char_not_pad)

lemma b64decode_b64encode: "b64decode (b64encode bs) = Some bs"
proof (induction bs rule: b64encode.induct)
  case 1
  show ?case by simp
next
  case (2 a)
  let ?n = "unat a * 65536"
  have lt: "?n div 262144 < 64"
    using unat_byte [of a] by simp
  have "?n div 262144 * 64 + ?n div 4096 mod 64 = unat a * 16"
    unfolding sextets(1) by simp
  then have "(of_nat ((?n div 262144 * 64 + ?n div 4096 mod 64) div 16) :: byte) = a"
    by simp
  then show ?case
    using lt by (simp add: Let_def b64_value_char b64_char_not_pad del: of_nat_mult of_nat_add)
next
  case (3 a b)
  let ?n = "unat a * 65536 + unat b * 256"
  have bounds: "unat a < 256" "unat b < 256"
    by (rule unat_byte)+
  have lt: "?n div 262144 < 64"
    using bounds by simp
  have m: "(?n div 262144 * 64 + ?n div 4096 mod 64) * 64 + ?n div 64 mod 64
      = unat a * 1024 + unat b * 4"
    unfolding sextets(1) sextets(2) by simp
  have "(unat a * 1024 + unat b * 4) div 1024 = unat a"
    using bounds by simp
  moreover have "(unat a * 1024 + unat b * 4) div 4 mod 256 = unat b"
  proof -
    have "(unat a * 1024 + unat b * 4) div 4 = unat b + 256 * unat a"
      by simp
    then show ?thesis
      using bounds by (simp only: mod_mult_self2) simp
  qed
  ultimately have bytes:
    "(of_nat (((?n div 262144 * 64 + ?n div 4096 mod 64) * 64 + ?n div 64 mod 64) div 1024)
        :: byte) = a"
    "(of_nat (((?n div 262144 * 64 + ?n div 4096 mod 64) * 64 + ?n div 64 mod 64) div 4 mod 256)
        :: byte) = b"
    unfolding m by simp_all
  show ?case
    using lt bytes
    by (simp add: Let_def b64_value_char b64_char_not_pad del: of_nat_mult of_nat_add)
next
  case (4 a b c rest)
  let ?n = "unat a * 65536 + unat b * 256 + unat c"
  have lt: "?n div 262144 < 64"
    by (rule group3(1))
  have m: "((?n div 262144 * 64 + ?n div 4096 mod 64) * 64 + ?n div 64 mod 64) * 64 + ?n mod 64
      = ?n"
    unfolding sextets(1) sextets(2) sextets(3) by (rule refl)
  have dec: "b64decode (b64encode (a # b # c # rest)) =
      (case b64decode (b64encode rest) of
        None \<Rightarrow> None
      | Some bs \<Rightarrow>
          Some (of_nat (?n div 65536) # of_nat (?n div 256 mod 256) # of_nat (?n mod 256) # bs))"
    using b64decode_group [OF lt mod64 mod64 mod64, of "?n div 4096" "?n div 64" "?n"
        "b64encode rest"]
    unfolding m by (simp add: Let_def)
  show ?case
    by (simp only: dec "4.IH" option.case group3(2-4) [of a b c])
qed

section \<open>Files and images\<close>

lemma open_rb_Inr_iff:
  "(open_rb p s = (Inr f, s')) =
     (fs_dirs (fs s) p = None \<and> fs_data (fs s) p = Some f \<and> s' = s)"
  by (auto simp: open_rb_def split: option.splits)

lemma fs_data_add_entry: "fs_data (add_entry f p) = fs_data f"
  by (simp add: add_entry_def split: option.splits)

lemma fs_dirs_add_entry_None: "(fs_dirs (add_entry f p) q = None) = (fs_dirs f q = None)"
  by (simp add: add_entry_def split: option.splits)

lemma fs_dirs_add_entry_Some:
  "(\<exists>y. fs_dirs (add_entry f p) q = Some y) = (\<exists>y. fs_dirs f q = Some y)"
  using fs_dirs_add_entry_None [of f p q] by auto

lemma write_file_Inr_iff:
  "(write_file p b s = (Inr u, s')) =
     (fs_dirs (fs s) p = None \<and> fs_dirs (fs s) (dirname p) \<noteq> None \<and>
      s' = s\<lparr>fs := add_entry ((fs s)\<lparr>fs_data := (fs_data (fs s))(p \<mapsto> b)\<rparr>) p\<rparr>)"
  by (auto simp: write_file_def)

lemma write_file_Inr:
  assumes "write_file p b s = (Inr u, s')"
  shows "fs_data (fs s') = (fs_data (fs s))(p \<mapsto> b)"
    and "\<And>q. (fs_dirs (fs s') q = None) = (fs_dirs (fs s) q = None)"
    and "stdout s' = stdout s" and "class_colors s' = class_colors s"
  using assms
  by (simp_all add: write_file_Inr_iff fs_data_add_entry fs_dirs_add_entry_None)

lemma Image_open_Inr_iff:
  "(Image_open W p s = (Inr img, s')) =
     (\<exists>f wh. open_rb p s = (Inr f, s) \<and> image_open W f = Inr wh \<and> s' = s \<and>
        img = \<lparr>img_src = f, img_size = wh, img_ops = []\<rparr>)"
proof
  assume "Image_open W p s = (Inr img, s')"
  then obtain f where f: "open_rb p s = (Inr f, s)"
    and rest: "(case image_open W f of Inl e \<Rightarrow> py_raise e
                | Inr wh \<Rightarrow> py_return \<lparr>img_src = f, img_size = wh, img_ops = []\<rparr>) s
               = (Inr img, s')"
    by (auto simp: Image_open_def py_bind_Inr_iff open_rb_Inr_iff)
  show "\<exists>f wh. open_rb p s = (Inr f, s) \<and> image_open W f = Inr wh \<and> s' = s \<and>
        img = \<lparr>img_src = f, img_size = wh, img_ops = []\<rparr>"
  proof (cases "image_open W f")
    case (Inl e)
    then show ?thesis using rest by (simp add: py_raise_def)
  next
    case (Inr wh)
    then show ?thesis using rest f by (auto simp: py_return_iff)
  qed
next
  assume "\<exists>f wh. open_rb p s = (Inr f, s) \<and> image_open W f = Inr wh \<and> s' = s \<and>
        img = \<lparr>img_src = f, img_size = wh, img_ops = []\<rparr>"
  then show "Image_open W p s = (Inr img, s')"
    by (auto simp: Image_open_def py_bind_def py_return_def)
qed

lemma Image_save_Inr_iff:
  "(Image_save W img p s = (Inr u, s')) =
     (\<exists>jpg. image_save W img = Inr jpg \<and> write_file p jpg s = (Inr u, s'))"
  by (auto simp: Image_save_def write_file_def split: sum.splits)

lemma generate_labelme_json_Inr_iff:
  "(generate_labelme_json p shapes w h s = (Inr doc, s')) =
     (\<exists>f. open_rb p s = (Inr f, s) \<and> s' = s \<and> doc = labelme_document p f shapes (w, h))"
  by (auto simp: generate_labelme_json_def py_bind_Inr_iff open_rb_Inr_iff py_return_iff
      labelme_document_def Let_def)

lemma shutil_copy_Inr_iff:
  "(shutil_copy src dst s = (Inr u, s')) =
     (\<exists>f. src \<noteq> (if fs_dirs (fs s) dst \<noteq> None then path_join dst (basename src) else dst) \<and>
          open_rb src s = (Inr f, s) \<and>
          write_file (if fs_dirs (fs s) dst \<noteq> None then path_join dst (basename src) else dst)
            f s = (Inr u, s'))"
  by (auto simp: shutil_copy_def Let_def py_bind_Inr_iff open_rb_Inr_iff)

lemma draw_Inr_iff:
  "(draw W img d = Inr img') =
     (image_draw W img d = None \<and> img' = img\<lparr>img_ops := img_ops img @ [d]\<rparr>)"
  by (auto simp: draw_def split: option.splits)

section \<open>One image\<close>

lemma draw_predictions_append:
  assumes "draw_predictions W font preds img shapes0 s = (Inr (img', shapes), s')"
  shows "length shapes = length shapes0 + length preds \<and>
         take (length shapes0) shapes = shapes0 \<and>
         (\<forall>i<length preds. \<exists>x y w h class_name confidence x1 y1.
            py_getitem (preds ! i) ''x'' = Inr x \<and>
            py_getitem (preds ! i) ''y'' = Inr y \<and>
            py_getitem (preds ! i) ''w'' = Inr w \<and>
            py_getitem (preds ! i) ''h'' = Inr h \<and>
            py_getitem (preds ! i) ''class_name'' = Inr class_name \<and>
            py_getitem (preds ! i) ''confidence'' = Inr confidence \<and>
            py_add W x w = Inr x1 \<and> py_add W y h = Inr y1 \<and>
            shapes ! (length shapes0 + i) = shape_record class_name x y x1 y1)"
  using assms
proof (induction preds arbitrary: img shapes0 s)
  case Nil
  then show ?case by (simp add: py_return_iff)
next
  case (Cons pred rest)
  from Cons.prems obtain x y w h class_name confidence x1 y1 img2 s2 where
    fields: "py_getitem pred ''x'' = Inr x" "py_getitem pred ''y'' = Inr y"
      "py_getitem pred ''w'' = Inr w" "py_getitem pred ''h'' = Inr h"
      "py_getitem pred ''class_name'' = Inr class_name"
      "py_getitem pred ''confidence'' = Inr confidence"
    and sums: "py_add W x w = Inr x1" "py_add W y h = Inr y1"
    and rest: "draw_predictions W font rest img2 (shapes0 @ [shape_record class_name x y x1 y1]) s2
                = (Inr (img', shapes), s')"
    by (auto simp: py_bind_Inr_iff py_lift_Inr_iff)
  note ih = Cons.IH [OF rest]
  have len: "length shapes = length shapes0 + length (pred # rest)"
    using ih by simp
  have "take (length (shapes0 @ [shape_record class_name x y x1 y1])) shapes =
      shapes0 @ [shape_record class_name x y x1 y1]"
    using ih by blast
  then have pre: "take (Suc (length shapes0)) shapes = shapes0 @ [shape_record class_name x y x1 y1]"
    by simp
  then have here: "shapes ! length shapes0 = shape_record class_name x y x1 y1"
    by (metis lessI nth_append_length nth_take)
  have pre0: "take (length shapes0) shapes = shapes0"
    using arg_cong [OF pre, of "take (length shapes0)"] by simp
  have nth: "\<exists>x y w h class_name confidence x1 y1.
            py_getitem ((pred # rest) ! i) ''x'' = Inr x \<and>
            py_getitem ((pred # rest) ! i) ''y'' = Inr y \<and>
            py_getitem ((pred # rest) ! i) ''w'' = Inr w \<and>
            py_getitem ((pred # rest) ! i) ''h'' = Inr h \<and>
            py_getitem ((pred # rest) ! i) ''class_name'' = Inr class_name \<and>
            py_getitem ((pred # rest) ! i) ''confidence'' = Inr confidence \<and>
            py_add W x w = Inr x1 \<and> py_add W y h = Inr y1 \<and>
            shapes ! (length shapes0 + i) = shape_record class_name x y x1 y1"
    if i: "i < length (pred # rest)" for i
  proof (cases i)
    case 0
    then show ?thesis
      using fields sums here by simp
  next
    case (Suc j)
    then have "j < length rest"
      using i by simp
    then show ?thesis
      using ih Suc by simp
  qed
  show ?case
    using len pre0 nth by blast
qed

lemma keeps_files_color: "keeps_files (get_color_for_class W c)"
  by (auto simp: keeps_files_def get_color_for_class_def Let_def
      split: sum.splits option.splits)

lemma keeps_files_draw_predictions: "keeps_files (draw_predictions W font preds img shapes)"
  by (induction preds arbitrary: img shapes)
     (auto intro!: keeps_files_bind keeps_files_lift keeps_files_return keeps_files_color)

lemma draw_predictions_fs:
  "draw_predictions W font preds img shapes s = (r, s') \<Longrightarrow> fs s' = fs s \<and> stdout s' = stdout s"
  using keeps_files_draw_predictions [of W font preds img shapes]
  by (simp add: keeps_files_def)

lemma draw_predictions_image:
  assumes "draw_predictions W font preds img shapes0 s = (Inr (img', shapes), s')"
  shows "img_src img' = img_src img \<and> img_size img' = img_size img \<and>
         length (img_ops img') = length (img_ops img) + 2 * length preds"
  using assms
proof (induction preds arbitrary: img shapes0 s)
  case Nil
  then show ?case by (simp add: py_return_iff)
next
  case (Cons pred rest)
  from Cons.prems obtain d1 d2 shapes1 s2 where
    rest: "draw_predictions W font rest
             (img\<lparr>img_ops := img_ops img @ [d1]\<rparr>\<lparr>img_ops := img_ops (img\<lparr>img_ops := img_ops img @ [d1]\<rparr>) @ [d2]\<rparr>)
             shapes1 s2 = (Inr (img', shapes), s')"
    by (auto simp: py_bind_Inr_iff py_lift_Inr_iff draw_Inr_iff)
  show ?case
    using Cons.IH [OF rest] by simp
qed

lemma process_image_success:
  assumes run: "process_image W p url h font s = (Inr (), s')"
    and readable: "fs_data (fs s) p = Some f"
    and resp: "post_files W url h (basename p) f = Inr resp"
    and created: "status_code resp = 201"
    and apart: "p \<noteq> output_image_path p" "p \<noteq> json_filename p"
    and nodir: "fs_dirs (fs s) (image_copy_path p) = None"
  shows "\<exists>body predictions preds wh sa img shapes sb jpg.
      response_json resp = Inr body \<and>
      py_get body ''result'' (JList []) = Inr predictions \<and>
      py_iter predictions = Inr preds \<and>
      image_open W f = Inr wh \<and>
      draw_predictions W font preds \<lparr>img_src = f, img_size = wh, img_ops = []\<rparr> [] sa
        = (Inr (img, shapes), sb) \<and>
      fs sa = fs s \<and> class_colors sa = class_colors s \<and>
      image_save W img = Inr jpg \<and>
      fs_data (fs s') = (fs_data (fs s))
        (output_image_path p \<mapsto> jpg,
         json_filename p \<mapsto> json_dump W (labelme_document p f shapes wh),
         image_copy_path p \<mapsto> f) \<and>
      class_colors s' = class_colors sb"
proof -
  let ?s0 = "s\<lparr>stdout := stdout s @ [ProcessingImage p]\<rparr>"
  have isfile: "fs_dirs (fs s) p = None"
  proof (rule ccontr)
    assume "fs_dirs (fs s) p \<noteq> None"
    then have "process_image W p url h font s = (Inl IsADirectoryError, ?s0)"
      by (simp add: process_image_def py_defs open_rb_def)
    then show False using run by simp
  qed
  have try_eval: "py_bind (open_rb p) (\<lambda>f. py_lift (post_files W url h (basename p) f)) ?s0
      = (Inr resp, ?s0)"
    using isfile readable resp by (simp add: py_bind_def py_lift_def open_rb_def)
  from run show ?thesis
    using try_eval created readable isfile
    apply (simp add: process_image_def  Let_def py_bind_Inr_iff py_print_iff py_try_iff
        py_lift_Inr_iff Image_open_Inr_iff Image_save_Inr_iff generate_labelme_json_Inr_iff
        shutil_copy_Inr_iff split: prod.splits)
    apply (simp add: output_image_path_def [symmetric] json_filename_def [symmetric]
        image_copy_path_def [symmetric])
    apply (elim exE conjE)
    apply (frule draw_predictions_fs)
    apply (frule draw_predictions_image)
    using apart nodir
    apply (simp add: open_rb_Inr_iff write_file_Inr_iff fs_data_add_entry
        fs_dirs_add_entry_Some)
    apply (rule exI, rule exI, rule exI, rule exI, rule conjI, assumption)
    apply (simp add: image_copy_path_def)
    done
qed

lemma py_iter_Nil_len: "py_iter v = Inr [] \<Longrightarrow> py_len v = Inr 0"
  by (auto simp: py_iter_def py_len_def split: json.splits)

lemma py_get_Inr_info:
  "py_get body k d = Inr v \<Longrightarrow> \<exists>info. py_get body ''image_info'' (JList []) = Inr info"
  by (auto simp: py_get_def split: json.splits)

lemma write_file_ok:
  assumes "fs_dirs (fs s) q = None" and "fs_dirs (fs s) (dirname q) \<noteq> None"
  shows "write_file q b s =
    (Inr (), s\<lparr>fs := add_entry ((fs s)\<lparr>fs_data := (fs_data (fs s))(q \<mapsto> b)\<rparr>) q\<rparr>)"
  using assms by (simp add: write_file_def)

lemma process_image_no_detections:
  assumes name: "CHR ''/'' \<notin> set image_file"
    and p: "p = path_join INPUT_FOLDER image_file"
    and readable: "fs_dirs (fs s) p = None" "fs_data (fs s) p = Some f"
    and resp: "post_files W url h image_file f = Inr resp"
    and created: "status_code resp = 201"
    and body: "resp_json resp = Some body"
    and result: "py_get body ''result'' (JList []) = Inr predictions"
    and zero: "py_iter predictions = Inr []"
    and decode: "image_open W f = Inr wh"
    and save: "image_save W \<lparr>img_src = f, img_size = wh, img_ops = []\<rparr> = Inr jpg"
    and outdir: "fs_dirs (fs s) OUTPUT_FOLDER \<noteq> None"
    and free: "fs_dirs (fs s) (output_image_path p) = None"
      "fs_dirs (fs s) (json_filename p) = None" "fs_dirs (fs s) (image_copy_path p) = None"
  shows "\<exists>s' info. py_get body ''image_info'' (JList []) = Inr info \<and>
      process_image W p url h font s = (Inr (), s') \<and>
      fs_data (fs s') = (fs_data (fs s))
        (output_image_path p \<mapsto> jpg,
         json_filename p \<mapsto> json_dump W (labelme_document p f [] wh),
         image_copy_path p \<mapsto> f) \<and>
      class_colors s' = class_colors s \<and>
      stdout s' = stdout s @
        [ProcessingImage p, Received 0 image_file, ImageInfo info,
         SavedPreview (output_image_path p), SavedJson (json_filename p),
         Copied (image_copy_path p)]"
proof -
  obtain info where info: "py_get body ''image_info'' (JList []) = Inr info"
    using py_get_Inr_info [OF result] by blast
  have base: "basename p = image_file"
    unfolding p using name by (rule basename_INPUT)
  note outs = output_paths [OF name, folded p]
  have dirs: "dirname (output_image_path p) = OUTPUT_FOLDER"
    "dirname (json_filename p) = OUTPUT_FOLDER" "dirname (image_copy_path p) = OUTPUT_FOLDER"
    unfolding outs
    by (rule dirname_OUTPUT [OF stem_suffix_no_slash(1) [OF name]]
        dirname_OUTPUT [OF stem_suffix_no_slash(2) [OF name]] dirname_OUTPUT [OF name])+
  note apart = outputs_apart(1-3) [OF name, folded p]
  let ?s0 = "s\<lparr>stdout := stdout s @ [ProcessingImage p]\<rparr>"
  have try_eval:
    "py_try (py_bind (open_rb p) (\<lambda>f. py_lift (post_files W url h (basename p) f))) ?s0
      = (Inr (Inr resp), ?s0)"
    using readable resp base by (simp add: py_try_def py_bind_def py_lift_def open_rb_def)
  have loop: "\<And>img t. draw_predictions W font [] img [] t = (Inr (img, []), t)"
    by (simp add: py_return_def)
  obtain w0 h0 where wh: "wh = (w0, h0)"
    by (cases wh)
  show ?thesis
    using try_eval created body result zero decode save info py_iter_Nil_len [OF zero]
    unfolding wh
    apply (simp add: process_image_def Let_def py_bind_Inr_iff py_print_iff
        py_lift_Inr_iff Image_open_Inr_iff Image_save_Inr_iff generate_labelme_json_Inr_iff
        response_json_def loop split: prod.splits)
    apply (simp add: output_image_path_def [symmetric] json_filename_def [symmetric]
        image_copy_path_def [symmetric])
    using readable outdir free apart dirs
    apply (simp add: open_rb_Inr_iff write_file_Inr_iff fs_data_add_entry
        fs_dirs_add_entry_Some fs_dirs_add_entry_None base py_return_iff)
    apply (simp add: shutil_copy_def Let_def py_bind_def open_rb_def write_file_def
        fs_data_add_entry fs_dirs_add_entry_Some fs_dirs_add_entry_None)
    done
qed

lemma has_intD: "has_int pred k \<Longrightarrow> \<exists>i. py_getitem pred k = Inr (JInt i)"
  by (auto simp: has_int_def split: sum.splits json.splits)

lemma typed_detectionD:
  assumes "typed_detection pred"
  obtains x y w h c q where
    "py_getitem pred ''x'' = Inr (JInt x)" "py_getitem pred ''y'' = Inr (JInt y)"
    "py_getitem pred ''w'' = Inr (JInt w)" "py_getitem pred ''h'' = Inr (JInt h)"
    "py_getitem pred ''class_name'' = Inr (JStr c)"
    "py_getitem pred ''confidence'' = Inr (JFloat q)"
proof -
  from assms have ints: "has_int pred ''x''" "has_int pred ''y''" "has_int pred ''w''"
      "has_int pred ''h''"
    and c: "\<exists>c. py_getitem pred ''class_name'' = Inr (JStr c)"
    and q: "\<exists>q. py_getitem pred ''confidence'' = Inr (JFloat q)"
    by (auto simp: typed_detection_def split: sum.splits json.splits)
  then show ?thesis
    using that has_intD by meson
qed

lemma get_color_for_class_JStr_Inr:
  "\<exists>col s1. get_color_for_class W (JStr c) s = (Inr col, s1)"
proof (cases "map_of (class_colors s) (JStr c)")
  case None
  then show ?thesis
    unfolding get_color_for_class_JStr by (simp only: option.case) blast
next
  case (Some col)
  then show ?thesis
    unfolding get_color_for_class_JStr by (simp only: option.case) blast
qed

lemma draw_predictions_total:
  assumes typed: "list_all typed_detection preds"
    and draws: "\<forall>i d. image_draw W i d = None"
    and fmt: "\<forall>q. \<exists>t. format_2f W (JFloat q) = Inr t"
  shows "\<exists>r s'. draw_predictions W font preds img shapes s = (Inr r, s')"
  using typed
proof (induction preds arbitrary: img shapes s)
  case Nil
  show ?case by (simp add: py_return_def)
next
  case (Cons pred rest)
  from Cons.prems have pred: "typed_detection pred" and rest: "list_all typed_detection rest"
    by simp_all
  from pred obtain x y w h c q where fields:
    "py_getitem pred ''x'' = Inr (JInt x)" "py_getitem pred ''y'' = Inr (JInt y)"
    "py_getitem pred ''w'' = Inr (JInt w)" "py_getitem pred ''h'' = Inr (JInt h)"
    "py_getitem pred ''class_name'' = Inr (JStr c)"
    "py_getitem pred ''confidence'' = Inr (JFloat q)"
    by (rule typed_detectionD)
  obtain col s1 where col: "get_color_for_class W (JStr c) s = (Inr col, s1)"
    using get_color_for_class_JStr_Inr by blast
  obtain t where t: "format_2f W (JFloat q) = Inr t"
    using fmt by blast
  let ?img2 = "img\<lparr>img_ops := img_ops img @
      [Rectangle (JInt x) (JInt y) (JInt (x + w)) (JInt (y + h)) col 2,
       DrawText (JInt x) (JInt (y - 20)) (JStr c) t font col]\<rparr>"
  let ?shapes = "shapes @ [shape_record (JStr c) (JInt x) (JInt y) (JInt (x + w)) (JInt (y + h))]"
  have step: "draw_predictions W font (pred # rest) img shapes s =
      draw_predictions W font rest ?img2 ?shapes s1"
    using fields col t draws
    by (simp add: py_bind_def py_lift_def draw_def py_format_2f_def)
  show ?case
    unfolding step using Cons.IH [OF rest] by blast
qed

lemma process_image_outputs:
  assumes name: "CHR ''/'' \<notin> set image_file"
      "list_ex (endswith (lower image_file)) allowed_extensions"
    and p: "p = path_join INPUT_FOLDER image_file"
    and readable: "fs_data (fs s) p = Some f"
    and resp: "post_files W url h image_file f = Inr resp"
    and created: "status_code resp = 201"
    and nodir: "fs_dirs (fs s) (image_copy_path p) = None"
    and run: "process_image W p url h font s = (Inr (), s')"
  shows "\<exists>body predictions preds wh sa img shapes sb jpg.
      resp_json resp = Some body \<and>
      py_get body ''result'' (JList []) = Inr predictions \<and>
      py_iter predictions = Inr preds \<and>
      image_open W f = Inr wh \<and>
      draw_predictions W font preds \<lparr>img_src = f, img_size = wh, img_ops = []\<rparr> [] sa
        = (Inr (img, shapes), sb) \<and>
      img_src img = f \<and>
      image_save W img = Inr jpg \<and>
      fs_data (fs s') (output_image_path p) = Some jpg \<and>
      fs_data (fs s') (json_filename p) = Some (json_dump W (labelme_document p f shapes wh)) \<and>
      fs_data (fs s') (image_copy_path p) = Some f \<and>
      fs_data (fs s') p = Some f"
proof -
  have base: "basename p = image_file"
    unfolding p using name(1) by (rule basename_INPUT)
  note apart = outputs_apart(1-5) [OF name(1), folded p]
    outputs_apart(6) [OF name(1) name(2), folded p]
  from process_image_success [OF run readable resp [folded base] created apart(1,2) nodir]
  obtain body predictions preds wh sa img shapes sb jpg where
    body: "response_json resp = Inr body"
    and predictions: "py_get body ''result'' (JList []) = Inr predictions"
    and preds: "py_iter predictions = Inr preds"
    and wh: "image_open W f = Inr wh"
    and loop: "draw_predictions W font preds \<lparr>img_src = f, img_size = wh, img_ops = []\<rparr> [] sa
        = (Inr (img, shapes), sb)"
    and jpg: "image_save W img = Inr jpg"
    and data: "fs_data (fs s') = (fs_data (fs s))
        (output_image_path p \<mapsto> jpg,
         json_filename p \<mapsto> json_dump W (labelme_document p f shapes wh),
         image_copy_path p \<mapsto> f)"
    by blast
  have "resp_json resp = Some body"
    using body by (simp add: response_json_def split: option.splits)
  moreover have "img_src img = f"
    using draw_predictions_image [OF loop] by simp
  moreover have "fs_data (fs s') (output_image_path p) = Some jpg"
    "fs_data (fs s') (json_filename p) = Some (json_dump W (labelme_document p f shapes wh))"
    "fs_data (fs s') (image_copy_path p) = Some f"
    "fs_data (fs s') p = Some f"
    unfolding data using apart readable by simp_all
  ultimately show ?thesis
    using predictions preds wh loop jpg by blast
qed


lemma main_loop_raise:
  assumes "process_image W (path_join INPUT_FOLDER image_file) url h font s = (Inl e, s1)"
  shows "main_loop W url h font (image_file # rest) s = (Inl e, s1)"
  using assms by (simp add: py_bind_def)

text \<open>The definitions a run on the concrete service unfolds.\<close>

lemmas eval_defs =
  process_image_def py_bind_def py_return_def py_raise_def py_lift_def py_print_def py_try_def
  open_rb_def write_file_def add_entry_def shutil_copy_def Image_open_def Image_save_def
  draw_def response_json_def generate_labelme_json_def get_color_for_class_def dict_key_def
  py_get_def py_getitem_def py_len_def py_iter_def py_format_2f_def
  basename_def dirname_def path_join_def splitext_def
  INPUT_FOLDER_def OUTPUT_FOLDER_def
  demo_world_def demo_predict_def detection_def ready_state_def demo_state_def demo_files_def
  color_palette_def shape_record_def Let_def

lemmas main_eval_defs =
  main_def main_loop.simps makedirs_exist_ok_def load_font_def is_OSError_def path_exists_def
  listdir_def allowed_extensions_def endswith_def lower_def lower_char_def
  BASE_URL_def FONT_PATH_def username_def password_def py_truthy_def

section \<open>Exceptions that leave the loop, and fields that are not there\<close>

lemma main_loop_after:
  "main_loop W url h font before s0 = (Inr (), s) \<Longrightarrow>
   main_loop W url h font (before @ files) s0 = main_loop W url h font files s"
proof (induction before arbitrary: s0)
  case Nil
  then show ?case by (simp add: py_return_def)
next
  case (Cons image_file before)
  from Cons.prems obtain u sm where
    one: "process_image W (path_join INPUT_FOLDER image_file) url h font s0 = (Inr u, sm)"
    and more: "main_loop W url h font before sm = (Inr (), s)"
    by (auto simp: py_bind_Inr_iff)
  show ?case
    using Cons.IH [OF more] one by (simp add: py_bind_def)
qed

lemma main_reaches_loop:
  assumes login: "post_json W (BASE_URL @ ''/login'')
                    [(''username'', username), (''password'', password)] = Inr login_resp"
    and ok: "status_code login_resp = 200"
    and body: "resp_json login_resp = Some (JObj kvs)"
    and token: "map_of kvs ''access_token'' = Some h" "py_truthy W h"
    and folder: "makedirs_exist_ok OUTPUT_FOLDER
                   (s0\<lparr>stdout := stdout s0 @ [LoggingIn, LoginSuccessful]\<rparr>) = (Inr (), sa)"
    and fnt: "load_font W sa = (Inr font, sb)"
    and listing: "fs_dirs (fs sb) INPUT_FOLDER = Some names"
    and files: "filter (\<lambda>f. list_ex (endswith (lower f)) allowed_extensions) names = image_files"
      "image_files \<noteq> []"
  shows "main W s0 = main_loop W (BASE_URL @ ''/predictionbox'') h font image_files sb"
  using assms
  by (simp add: main_def Let_def py_bind_def py_print_def py_lift_def response_json_def
      py_get_def path_exists_def listdir_def)

lemma process_image_loop_raise:
  assumes readable: "fs_dirs (fs s) p = None" "fs_data (fs s) p = Some f"
    and resp: "post_files W url h (basename p) f = Inr resp"
    and created: "status_code resp = 201"
    and body: "resp_json resp = Some body"
    and result: "py_get body ''result'' (JList []) = Inr predictions"
    and len: "py_len predictions = Inr n"
    and info: "py_get body ''image_info'' (JList []) = Inr info"
    and decode: "image_open W f = Inr wh"
    and iter: "py_iter predictions = Inr preds"
    and loop: "draw_predictions W font preds \<lparr>img_src = f, img_size = wh, img_ops = []\<rparr> []
                 (s\<lparr>stdout := stdout s @
                      [ProcessingImage p, Received n (basename p), ImageInfo info]\<rparr>) = (Inl e, sd)"
  shows "process_image W p url h font s = (Inl e, sd)" and "fs sd = fs s"
proof -
  show "process_image W p url h font s = (Inl e, sd)"
    using assms
    by (simp add: process_image_def py_bind_def py_print_def py_try_def py_lift_def
        py_return_def open_rb_def response_json_def Image_open_def
        del: draw_predictions.simps)
  show "fs sd = fs s"
    using draw_predictions_fs [OF loop] by simp
qed

lemma draw_predictions_draw_fails:
  assumes fields: "py_getitem pred ''x'' = Inr x" "py_getitem pred ''y'' = Inr y"
      "py_getitem pred ''w'' = Inr w" "py_getitem pred ''h'' = Inr h"
      "py_getitem pred ''class_name'' = Inr class_name"
      "py_getitem pred ''confidence'' = Inr confidence"
    and color: "get_color_for_class W class_name s = (Inr color, s1)"
    and sums: "py_add W x w = Inr x1" "py_add W y h = Inr y1"
    and fails: "image_draw W img (Rectangle x y x1 y1 color 2) = Some e"
  shows "draw_predictions W font (pred # rest) img shapes s = (Inl e, s1)"
  using assms by (simp add: py_bind_def py_lift_def draw_def)

lemma draw_predictions_text_fails:
  assumes fields: "py_getitem pred ''x'' = Inr x" "py_getitem pred ''y'' = Inr y"
      "py_getitem pred ''w'' = Inr w" "py_getitem pred ''h'' = Inr h"
      "py_getitem pred ''class_name'' = Inr class_name"
      "py_getitem pred ''confidence'' = Inr confidence"
    and color: "get_color_for_class W class_name s = (Inr color, s1)"
    and sums: "py_add W x w = Inr x1" "py_add W y h = Inr y1"
    and box: "image_draw W img (Rectangle x y x1 y1 color 2) = None"
    and label: "py_format_2f W confidence = Inr confidence_text"
      "py_sub W y (JInt 20) = Inr y_text"
    and fails: "image_draw W (img\<lparr>img_ops := img_ops img @ [Rectangle x y x1 y1 color 2]\<rparr>)
                  (DrawText x y_text class_name confidence_text font color) = Some e"
  shows "draw_predictions W font (pred # rest) img shapes s = (Inl e, s1)"
  using assms by (simp add: py_bind_def py_lift_def draw_def)


lemma process_image_save_fails:
  assumes name: "CHR ''/'' \<notin> set image_file"
    and p: "p = path_join INPUT_FOLDER image_file"
    and readable: "fs_dirs (fs s) p = None" "fs_data (fs s) p = Some f"
    and resp: "post_files W url h image_file f = Inr resp"
    and created: "status_code resp = 201"
    and body: "resp_json resp = Some body"
    and result: "py_get body ''result'' (JList []) = Inr predictions"
    and zero: "py_iter predictions = Inr []"
    and decode: "image_open W f = Inr wh"
    and save: "image_save W \<lparr>img_src = f, img_size = wh, img_ops = []\<rparr> = Inl (e, written)"
    and outdir: "fs_dirs (fs s) OUTPUT_FOLDER \<noteq> None"
    and free: "fs_dirs (fs s) (output_image_path p) = None"
  shows "\<exists>s'. process_image W p url h font s = (Inl e, s') \<and>
      fs_dirs (fs s') = fs_dirs (fs s) \<and>
      fs_data (fs s') =
        (if fs_data (fs s) (output_image_path p) = None then fs_data (fs s)
         else (fs_data (fs s))(output_image_path p \<mapsto> written)) \<and>
      class_colors s' = class_colors s"
proof -
  obtain info where info: "py_get body ''image_info'' (JList []) = Inr info"
    using py_get_Inr_info [OF result] by blast
  have base: "basename p = image_file"
    unfolding p using name by (rule basename_INPUT)
  note outs = output_paths [OF name, folded p]
  have dirs: "dirname (output_image_path p) = OUTPUT_FOLDER"
    unfolding outs by (rule dirname_OUTPUT [OF stem_suffix_no_slash(1) [OF name]])
  have opath: "output_image_path p =
      path_join OUTPUT_FOLDER (fst (splitext image_file) @ ''_prediction.jpg'')"
    by (simp add: output_image_path_def base)
  from outdir obtain entries where entries: "fs_dirs (fs s) OUTPUT_FOLDER = Some entries"
    by blast
  show ?thesis
    using readable resp created body result zero decode save info py_iter_Nil_len [OF zero]
      entries free dirs
    unfolding opath
    by (simp add: process_image_def Let_def py_bind_def py_print_def py_try_def py_lift_def
        py_return_def open_rb_def response_json_def Image_open_def Image_save_def base)
qed













section \<open>The claims about the batch\<close>

text \<open>
  Claim C1, as amended. Take a run of \<^verbatim>\<open>main\<close> that has logged in, made the output folder,
  loaded a font and listed the input folder, whose loop has handled the files \<open>before\<close>
  and comes to \<open>image_file\<close>, with the path \<open>p\<close>, in the state \<open>s\<close>, the files \<open>rest\<close> still
  to come. When the file is missing when it is opened, or the prediction request answers
  with a status other than 201, the failure is printed and the run goes on with \<open>rest\<close>.
  Every exception that leaves \<^verbatim>\<open>process_image\<close> for this file leaves \<^verbatim>\<open>main\<close> as well, in
  the state it was raised in, so that none of \<open>rest\<close> is processed. These exceptions do
  leave \<^verbatim>\<open>process_image\<close>: an exception of the request other than \<^verbatim>\<open>FileNotFoundError\<close>;
  a body that is not JSON; an image Pillow cannot open; and every exception of the loop
  that draws, the exception of a drawing call that fails (the rectangle or the label of
  a record) among them.
\<close>

theorem main_loop_failures:
  assumes login: "post_json W (BASE_URL @ ''/login'')
                    [(''username'', username), (''password'', password)] = Inr login_resp"
    and ok: "status_code login_resp = 200"
    and body: "resp_json login_resp = Some (JObj kvs)"
    and token: "map_of kvs ''access_token'' = Some h" "py_truthy W h"
    and folder: "makedirs_exist_ok OUTPUT_FOLDER
                   (s0\<lparr>stdout := stdout s0 @ [LoggingIn, LoginSuccessful]\<rparr>) = (Inr (), sa)"
    and fnt: "load_font W sa = (Inr font, sb)"
    and listing: "fs_dirs (fs sb) INPUT_FOLDER = Some names"
    and files: "filter (\<lambda>f. list_ex (endswith (lower f)) allowed_extensions) names =
                  before @ image_file # rest"
    and url: "url = BASE_URL @ ''/predictionbox''"
    and earlier: "main_loop W url h font before sb = (Inr (), s)"
    and p: "p = path_join INPUT_FOLDER image_file"
  shows
    "main W s0 = main_loop W url h font (image_file # rest) s
     \<and> (fs_dirs (fs s) p = None \<and> fs_data (fs s) p = None \<longrightarrow>
        main W s0 =
        main_loop W url h font rest
          (s\<lparr>stdout := stdout s @ [ProcessingImage p, ImageNotFound p]\<rparr>))
     \<and> (\<forall>f resp. fs_dirs (fs s) p = None \<and> fs_data (fs s) p = Some f \<and>
          post_files W url h (basename p) f = Inr resp \<and> status_code resp \<noteq> 201 \<longrightarrow>
        main W s0 =
        main_loop W url h font rest
          (s\<lparr>stdout := stdout s @ [ProcessingImage p, PredictionFailed p (resp_text resp)]\<rparr>))
     \<and> (\<forall>e s1. process_image W p url h font s = (Inl e, s1) \<longrightarrow> main W s0 = (Inl e, s1))
     \<and> (\<forall>f e. fs_dirs (fs s) p = None \<and> fs_data (fs s) p = Some f \<and>
          post_files W url h (basename p) f = Inl e \<and> e \<noteq> FileNotFoundError \<longrightarrow>
        process_image W p url h font s =
          (Inl e, s\<lparr>stdout := stdout s @ [ProcessingImage p]\<rparr>))
     \<and> (\<forall>f resp. fs_dirs (fs s) p = None \<and> fs_data (fs s) p = Some f \<and>
          post_files W url h (basename p) f = Inr resp \<and> status_code resp = 201 \<and>
          resp_json resp = None \<longrightarrow>
        process_image W p url h font s =
          (Inl JSONDecodeError, s\<lparr>stdout := stdout s @ [ProcessingImage p]\<rparr>))
     \<and> (\<forall>f resp body predictions n info e.
          fs_dirs (fs s) p = None \<and> fs_data (fs s) p = Some f \<and>
          post_files W url h (basename p) f = Inr resp \<and> status_code resp = 201 \<and>
          resp_json resp = Some body \<and>
          py_get body ''result'' (JList []) = Inr predictions \<and>
          py_len predictions = Inr n \<and>
          py_get body ''image_info'' (JList []) = Inr info \<and>
          image_open W f = Inl e \<longrightarrow>
        process_image W p url h font s =
          (Inl e, s\<lparr>stdout := stdout s @
                   [ProcessingImage p, Received n (basename p), ImageInfo info]\<rparr>))
     \<and> (\<forall>f resp body predictions n info wh preds e sd.
          fs_dirs (fs s) p = None \<and> fs_data (fs s) p = Some f \<and>
          post_files W url h (basename p) f = Inr resp \<and> status_code resp = 201 \<and>
          resp_json resp = Some body \<and>
          py_get body ''result'' (JList []) = Inr predictions \<and>
          py_len predictions = Inr n \<and>
          py_get body ''image_info'' (JList []) = Inr info \<and>
          image_open W f = Inr wh \<and> py_iter predictions = Inr preds \<and>
          draw_predictions W font preds \<lparr>img_src = f, img_size = wh, img_ops = []\<rparr> []
            (s\<lparr>stdout := stdout s @
                 [ProcessingImage p, Received n (basename p), ImageInfo info]\<rparr>) = (Inl e, sd)
          \<longrightarrow>
        process_image W p url h font s = (Inl e, sd) \<and> fs sd = fs s)
     \<and> (\<forall>pred more img shapes t x y w bh class_name confidence color t1 x1 y1 e.
          py_getitem pred ''x'' = Inr x \<and> py_getitem pred ''y'' = Inr y \<and>
          py_getitem pred ''w'' = Inr w \<and> py_getitem pred ''h'' = Inr bh \<and>
          py_getitem pred ''class_name'' = Inr class_name \<and>
          py_getitem pred ''confidence'' = Inr confidence \<and>
          get_color_for_class W class_name t = (Inr color, t1) \<and>
          py_add W x w = Inr x1 \<and> py_add W y bh = Inr y1 \<and>
          image_draw W img (Rectangle x y x1 y1 color 2) = Some e \<longrightarrow>
        draw_predictions W font (pred # more) img shapes t = (Inl e, t1))
     \<and> (\<forall>pred more img shapes t x y w bh class_name confidence color t1 x1 y1
            confidence_text y_text e.
          py_getitem pred ''x'' = Inr x \<and> py_getitem pred ''y'' = Inr y \<and>
          py_getitem pred ''w'' = Inr w \<and> py_getitem pred ''h'' = Inr bh \<and>
          py_getitem pred ''class_name'' = Inr class_name \<and>
          py_getitem pred ''confidence'' = Inr confidence \<and>
          get_color_for_class W class_name t = (Inr color, t1) \<and>
          py_add W x w = Inr x1 \<and> py_add W y bh = Inr y1 \<and>
          image_draw W img (Rectangle x y x1 y1 color 2) = None \<and>
          py_format_2f W confidence = Inr confidence_text \<and>
          py_sub W y (JInt 20) = Inr y_text \<and>
          image_draw W (img\<lparr>img_ops := img_ops img @ [Rectangle x y x1 y1 color 2]\<rparr>)
            (DrawText x y_text class_name confidence_text font color) = Some e \<longrightarrow>
        draw_predictions W font (pred # more) img shapes t = (Inl e, t1))"
proof -
  have nonempty: "before @ image_file # rest \<noteq> []"
    by simp
  have "main W s0 = main_loop W url h font (before @ image_file # rest) sb"
    unfolding url
    by (rule main_reaches_loop [OF login ok body token folder fnt listing files nonempty])
  then have here: "main W s0 = main_loop W url h font (image_file # rest) s"
    using main_loop_after [OF earlier] by simp
  have missing: "main W s0 =
        main_loop W url h font rest
          (s\<lparr>stdout := stdout s @ [ProcessingImage p, ImageNotFound p]\<rparr>)"
    if "fs_dirs (fs s) p = None \<and> fs_data (fs s) p = None"
    unfolding here using that unfolding p
    by (simp add: process_image_def py_defs open_rb_def)
  have status: "main W s0 =
        main_loop W url h font rest
          (s\<lparr>stdout := stdout s @ [ProcessingImage p, PredictionFailed p (resp_text resp)]\<rparr>)"
    if "fs_dirs (fs s) p = None \<and> fs_data (fs s) p = Some f \<and>
          post_files W url h (basename p) f = Inr resp \<and> status_code resp \<noteq> 201"
    for f resp
    unfolding here using that unfolding p
    by (simp add: process_image_def py_defs open_rb_def)
  have leaves: "main W s0 = (Inl e, s1)"
    if "process_image W p url h font s = (Inl e, s1)" for e s1
    unfolding here using that unfolding p by (rule main_loop_raise)
  have request: "process_image W p url h font s =
          (Inl e, s\<lparr>stdout := stdout s @ [ProcessingImage p]\<rparr>)"
    if "fs_dirs (fs s) p = None \<and> fs_data (fs s) p = Some f \<and>
          post_files W url h (basename p) f = Inl e \<and> e \<noteq> FileNotFoundError"
    for f e
    using that by (simp add: process_image_def py_defs open_rb_def)
  have not_json: "process_image W p url h font s =
          (Inl JSONDecodeError, s\<lparr>stdout := stdout s @ [ProcessingImage p]\<rparr>)"
    if "fs_dirs (fs s) p = None \<and> fs_data (fs s) p = Some f \<and>
          post_files W url h (basename p) f = Inr resp \<and> status_code resp = 201 \<and>
          resp_json resp = None"
    for f resp
    using that by (simp add: process_image_def py_defs open_rb_def response_json_def)
  have decode: "process_image W p url h font s =
          (Inl e, s\<lparr>stdout := stdout s @
                   [ProcessingImage p, Received n (basename p), ImageInfo info]\<rparr>)"
    if "fs_dirs (fs s) p = None \<and> fs_data (fs s) p = Some f \<and>
          post_files W url h (basename p) f = Inr resp \<and> status_code resp = 201 \<and>
          resp_json resp = Some body \<and>
          py_get body ''result'' (JList []) = Inr predictions \<and>
          py_len predictions = Inr n \<and>
          py_get body ''image_info'' (JList []) = Inr info \<and>
          image_open W f = Inl e"
    for f resp body predictions n info e
    using that
    by (simp add: process_image_def py_defs open_rb_def response_json_def Image_open_def)
  have drawing: "process_image W p url h font s = (Inl e, sd) \<and> fs sd = fs s"
    if "fs_dirs (fs s) p = None \<and> fs_data (fs s) p = Some f \<and>
          post_files W url h (basename p) f = Inr resp \<and> status_code resp = 201 \<and>
          resp_json resp = Some body \<and>
          py_get body ''result'' (JList []) = Inr predictions \<and>
          py_len predictions = Inr n \<and>
          py_get body ''image_info'' (JList []) = Inr info \<and>
          image_open W f = Inr wh \<and> py_iter predictions = Inr preds \<and>
          draw_predictions W font preds \<lparr>img_src = f, img_size = wh, img_ops = []\<rparr> []
            (s\<lparr>stdout := stdout s @
                 [ProcessingImage p, Received n (basename p), ImageInfo info]\<rparr>) = (Inl e, sd)"
    for f resp body predictions n info wh preds e sd
    using that process_image_loop_raise [of s p f W url h resp body predictions n info wh
        preds font e sd]
    by blast
  have call: "draw_predictions W font (pred # more) img shapes t = (Inl e, t1)"
    if "py_getitem pred ''x'' = Inr x \<and> py_getitem pred ''y'' = Inr y \<and>
          py_getitem pred ''w'' = Inr w \<and> py_getitem pred ''h'' = Inr bh \<and>
          py_getitem pred ''class_name'' = Inr class_name \<and>
          py_getitem pred ''confidence'' = Inr confidence \<and>
          get_color_for_class W class_name t = (Inr color, t1) \<and>
          py_add W x w = Inr x1 \<and> py_add W y bh = Inr y1 \<and>
          image_draw W img (Rectangle x y x1 y1 color 2) = Some e"
    for pred more img shapes t x y w bh class_name confidence color t1 x1 y1 e
    using that draw_predictions_draw_fails by blast
  have label: "draw_predictions W font (pred # more) img shapes t = (Inl e, t1)"
    if "py_getitem pred ''x'' = Inr x \<and> py_getitem pred ''y'' = Inr y \<and>
          py_getitem pred ''w'' = Inr w \<and> py_getitem pred ''h'' = Inr bh \<and>
          py_getitem pred ''class_name'' = Inr class_name \<and>
          py_getitem pred ''confidence'' = Inr confidence \<and>
          get_color_for_class W class_name t = (Inr color, t1) \<and>
          py_add W x w = Inr x1 \<and> py_add W y bh = Inr y1 \<and>
          image_draw W img (Rectangle x y x1 y1 color 2) = None \<and>
          py_format_2f W confidence = Inr confidence_text \<and>
          py_sub W y (JInt 20) = Inr y_text \<and>
          image_draw W (img\<lparr>img_ops := img_ops img @ [Rectangle x y x1 y1 color 2]\<rparr>)
            (DrawText x y_text class_name confidence_text font color) = Some e"
    for pred more img shapes t x y w bh class_name confidence color t1 x1 y1
      confidence_text y_text e
    using that draw_predictions_text_fails by blast
  show ?thesis
    apply (intro conjI allI impI)
            apply (rule here)
           apply (erule missing)
          apply (erule status)
         apply (erule leaves)
        apply (erule request)
       apply (erule not_json)
      apply (erule decode)
     apply (erule drawing [THEN conjunct1])
     apply (erule drawing [THEN conjunct2])
     apply (erule call)
    apply (erule label)
    done
qed

theorem main_loop_failures_witness:
  "filter (\<lambda>f. list_ex (endswith (lower f)) allowed_extensions)
       [''a.jpg'', ''b.png'', ''c.JPEG'', ''d.png'', ''notes.txt'']
     = [''a.jpg'', ''b.png''] @ ''c.JPEG'' # [''d.png'']
   \<and> fst (main_loop demo_world (BASE_URL @ ''/predictionbox'') (JStr ''t0'') DefaultFont
            [''a.jpg'', ''b.png'']
            (snd (load_font demo_world (snd (makedirs_exist_ok OUTPUT_FOLDER
               (demo_state\<lparr>stdout := stdout demo_state @ [LoggingIn, LoginSuccessful]\<rparr>))))))
       = Inr ()
   \<and> fst (main demo_world demo_state) = Inl JSONDecodeError
   \<and> last (stdout (snd (main demo_world demo_state))) = ProcessingImage ''input_images/c.JPEG''"
proof -
  let ?url = "BASE_URL @ ''/predictionbox''"
  let ?login = "\<lparr>status_code = 200, resp_text = [],
      resp_json = Some (JObj [(''access_token'', JStr ''t0'')])\<rparr>"
  let ?s0' = "demo_state\<lparr>stdout := stdout demo_state @ [LoggingIn, LoginSuccessful]\<rparr>"
  let ?sa = "snd (makedirs_exist_ok OUTPUT_FOLDER ?s0')"
  let ?sb = "snd (load_font demo_world ?sa)"
  let ?names = "[''a.jpg'', ''b.png'', ''c.JPEG'', ''d.png'', ''notes.txt'']"
  let ?s = "snd (main_loop demo_world ?url (JStr ''t0'') DefaultFont [''a.jpg'', ''b.png''] ?sb)"
  let ?p = "path_join INPUT_FOLDER ''c.JPEG''"
  let ?resp = "\<lparr>status_code = 201, resp_text = ''<html>'', resp_json = None\<rparr>"
  have login: "post_json demo_world (BASE_URL @ ''/login'')
      [(''username'', username), (''password'', password)] = Inr ?login"
    by (simp add: demo_world_def)
  have ok: "status_code ?login = 200"
    and body: "resp_json ?login = Some (JObj [(''access_token'', JStr ''t0'')])"
    and token: "map_of [(''access_token'', JStr ''t0'')] ''access_token'' = Some (JStr ''t0'')"
      "py_truthy demo_world (JStr ''t0'')"
    by (simp_all add: py_truthy_def)
  have folder: "makedirs_exist_ok OUTPUT_FOLDER ?s0' = (Inr (), ?sa)"
    by (simp add: prod_eq_iff makedirs_exist_ok_def demo_state_def demo_files_def OUTPUT_FOLDER_def)
  have fnt: "load_font demo_world ?sa = (Inr DefaultFont, ?sb)"
    by (simp add: prod_eq_iff load_font_def demo_world_def is_OSError_def py_bind_def
        py_print_def py_return_def)
  have listing: "fs_dirs (fs ?sb) INPUT_FOLDER = Some ?names"
    by (simp add: main_eval_defs eval_defs)
  have files: "filter (\<lambda>f. list_ex (endswith (lower f)) allowed_extensions) ?names
      = [''a.jpg'', ''b.png''] @ ''c.JPEG'' # [''d.png'']"
    by (simp add: allowed_extensions_def endswith_def lower_def lower_char_def)
  have handled: "fst (main_loop demo_world ?url (JStr ''t0'') DefaultFont [''a.jpg'', ''b.png''] ?sb)
      = Inr ()"
    by (simp add: main_eval_defs eval_defs)
  then have earlier: "main_loop demo_world ?url (JStr ''t0'') DefaultFont [''a.jpg'', ''b.png''] ?sb
      = (Inr (), ?s)"
    by (simp add: prod_eq_iff)
  note T = main_loop_failures [OF login ok body token folder fnt listing files refl earlier refl]
  have hyp: "fs_dirs (fs ?s) ?p = None \<and> fs_data (fs ?s) ?p = Some [6] \<and>
      post_files demo_world ?url (JStr ''t0'') (basename ?p) [6] = Inr ?resp \<and>
      status_code ?resp = 201 \<and> resp_json ?resp = None"
    by (simp add: main_eval_defs eval_defs)
  note run = T [THEN conjunct2, THEN conjunct2, THEN conjunct2, THEN conjunct2, THEN conjunct2,
      THEN conjunct1, rule_format, OF hyp]
  note stop = T [THEN conjunct2, THEN conjunct2, THEN conjunct2, THEN conjunct1, rule_format,
      OF run]
  from stop have "main demo_world demo_state =
      (Inl JSONDecodeError, ?s\<lparr>stdout := stdout ?s @ [ProcessingImage ?p]\<rparr>)" .
  then have "fst (main demo_world demo_state) = Inl JSONDecodeError"
    "last (stdout (snd (main demo_world demo_state))) = ProcessingImage ''input_images/c.JPEG''"
    by (simp_all add: path_join_def INPUT_FOLDER_def)
  then show ?thesis
    using files handled by blast
qed

text \<open>
  The claim as the specification states it fails: in this run the body for \<open>c.JPEG\<close> is
  not JSON, the exception ends \<^verbatim>\<open>main\<close>, and \<open>d.png\<close> is never processed.
\<close>

theorem main_stops_at_uncaught_failure:
  "fst (main demo_world demo_state) = Inl JSONDecodeError
   \<and> ProcessingImage ''input_images/c.JPEG'' \<in> set (stdout (snd (main demo_world demo_state)))
   \<and> ProcessingImage ''input_images/d.png'' \<notin> set (stdout (snd (main demo_world demo_state)))
   \<and> fs_data (fs (snd (main demo_world demo_state))) ''labelme_output/d.png'' = None
   \<and> fs_data (fs (snd (main demo_world demo_state))) ''labelme_output/a.jpg'' = Some [1, 2, 3, 4]"
  by (simp add: main_eval_defs eval_defs)




text \<open>
  Claim C4. When \<^verbatim>\<open>process_image\<close> has processed a file of the input folder (the request
  answered 201 and the call returned), the document written to the annotation path is
  the LabelMe document of the bytes \<open>f\<close> the input file had, its \<open>imageData\<close> is a string
  that base64-decodes to exactly \<open>f\<close>, and the input file still holds \<open>f\<close>.
\<close>

theorem imageData_round_trip:
  assumes name: "CHR ''/'' \<notin> set image_file"
      "list_ex (endswith (lower image_file)) allowed_extensions"
    and p: "p = path_join INPUT_FOLDER image_file"
    and readable: "fs_data (fs s) p = Some f"
    and resp: "post_files W url h image_file f = Inr resp"
    and created: "status_code resp = 201"
    and nodir: "fs_dirs (fs s) (image_copy_path p) = None"
    and run: "process_image W p url h font s = (Inr (), s')"
  shows "\<exists>shapes wh t.
      fs_data (fs s') (json_filename p) = Some (json_dump W (labelme_document p f shapes wh)) \<and>
      py_getitem (labelme_document p f shapes wh) ''imageData'' = Inr (JStr t) \<and>
      b64decode t = Some f \<and>
      fs_data (fs s') p = Some f"
proof -
  from process_image_outputs [OF name p readable resp created nodir run]
  obtain shapes wh where
    doc: "fs_data (fs s') (json_filename p) = Some (json_dump W (labelme_document p f shapes wh))"
    and kept: "fs_data (fs s') p = Some f"
    by blast
  have "py_getitem (labelme_document p f shapes wh) ''imageData'' = Inr (JStr (b64encode f))"
    by (simp add: labelme_document_def py_getitem_def)
  then show ?thesis
    using doc kept b64decode_b64encode [of f] by blast
qed

theorem imageData_round_trip_witness:
  "fs_data (fs ready_state) ''input_images/a.jpg'' = Some [1, 2, 3, 4]
   \<and> fst (process_image demo_world ''input_images/a.jpg'' [] (JStr ''t0'') DefaultFont ready_state)
       = Inr ()
   \<and> b64decode ''AQIDBA=='' = Some [1, 2, 3, 4]
   \<and> (\<exists>shapes wh t.
        fs_data (fs (snd (process_image demo_world ''input_images/a.jpg'' [] (JStr ''t0'')
                            DefaultFont ready_state))) ''labelme_output/a.json'' =
          Some (json_dump demo_world
                  (labelme_document ''input_images/a.jpg'' [1, 2, 3, 4] shapes wh)) \<and>
        py_getitem (labelme_document ''input_images/a.jpg'' [1, 2, 3, 4] shapes wh)
          ''imageData'' = Inr (JStr t) \<and>
        b64decode t = Some [1, 2, 3, 4] \<and>
        fs_data (fs (snd (process_image demo_world ''input_images/a.jpg'' [] (JStr ''t0'')
                            DefaultFont ready_state))) ''input_images/a.jpg'' =
          Some [1, 2, 3, 4])"
proof -
  let ?p = "''input_images/a.jpg''"
  let ?run = "process_image demo_world ?p [] (JStr ''t0'') DefaultFont ready_state"
  have name: "CHR ''/'' \<notin> set ''a.jpg''"
    "list_ex (endswith (lower ''a.jpg'')) allowed_extensions"
    by (simp_all add: allowed_extensions_def endswith_def lower_def lower_char_def)
  have p: "?p = path_join INPUT_FOLDER ''a.jpg''"
    by (simp add: path_join_def INPUT_FOLDER_def)
  have readable: "fs_data (fs ready_state) ?p = Some [1, 2, 3, 4]"
    by (simp add: ready_state_def demo_files_def)
  have resp: "post_files demo_world [] (JStr ''t0'') ''a.jpg'' [1, 2, 3, 4] =
      Inr (projr (demo_predict ''a.jpg''))"
    by (simp add: demo_world_def demo_predict_def)
  have created: "status_code (projr (demo_predict ''a.jpg'')) = 201"
    by (simp add: demo_predict_def)
  have json: "json_filename ?p = ''labelme_output/a.json''"
    "image_copy_path ?p = ''labelme_output/a.jpg''"
    by (simp_all add: json_filename_def image_copy_path_def
        basename_def splitext_def path_join_def OUTPUT_FOLDER_def)
  have nodir: "fs_dirs (fs ready_state) (image_copy_path ?p) = None"
    unfolding json by (simp add: ready_state_def)
  have ok: "fst ?run = Inr ()"
    by (simp add: eval_defs)
  then have run: "?run = (Inr (), snd ?run)"
    by (simp add: prod_eq_iff)
  note T = imageData_round_trip [OF name p readable resp created nodir run]
  have enc: "b64encode [1, 2, 3, 4] = ''AQIDBA==''"
    by (simp add: b64_char_def b64_alphabet_def)
  have dec: "b64decode ''AQIDBA=='' = Some [1, 2, 3, 4]"
    using b64decode_b64encode [of "[1, 2, 3, 4]"] unfolding enc .
  show ?thesis
    by (intro conjI, rule readable, rule ok, rule dec, rule T [unfolded json])
qed

text \<open>
  Claim C5. When \<^verbatim>\<open>process_image\<close> has processed a file of the input folder (the request
  answered 201 and the call returned), its loop over the predictions of the response has
  made one shape for every prediction, in order: the shape at position \<open>i\<close> has the label
  \<open>class_name\<close> of prediction \<open>i\<close>, the points \<open>[[x, y], [x + w, y + h]]\<close> (for integer fields
  the integer sums), no group, the type rectangle and no flags. The document
  \<^verbatim>\<open>generate_labelme_json\<close> builds from these shapes is the one written to the annotation
  path, and it lists them under \<open>shapes\<close> in this order. On Detection Records of the data
  model the loop does return, with one shape for each, provided Pillow draws and the
  confidence formats.
\<close>

theorem shapes_follow_detections:
  assumes name: "CHR ''/'' \<notin> set image_file"
      "list_ex (endswith (lower image_file)) allowed_extensions"
    and p: "p = path_join INPUT_FOLDER image_file"
    and readable: "fs_data (fs s) p = Some f"
    and resp: "post_files W url h image_file f = Inr resp"
    and created: "status_code resp = 201"
    and nodir: "fs_dirs (fs s) (image_copy_path p) = None"
    and run: "process_image W p url h font s = (Inr (), s')"
  shows
    "(\<exists>body predictions preds wh img shapes sa sb.
        resp_json resp = Some body \<and>
        py_get body ''result'' (JList []) = Inr predictions \<and>
        py_iter predictions = Inr preds \<and>
        draw_predictions W font preds \<lparr>img_src = f, img_size = wh, img_ops = []\<rparr> [] sa
          = (Inr (img, shapes), sb) \<and>
        generate_labelme_json p shapes (fst wh) (snd wh) s
          = (Inr (labelme_document p f shapes wh), s) \<and>
        fs_data (fs s') (json_filename p) =
          Some (json_dump W (labelme_document p f shapes wh)) \<and>
        py_getitem (labelme_document p f shapes wh) ''shapes'' = Inr (JList shapes) \<and>
        length shapes = length preds \<and>
        (\<forall>i<length preds. \<exists>x y w bh class_name confidence x1 y1.
           py_getitem (preds ! i) ''x'' = Inr x \<and>
           py_getitem (preds ! i) ''y'' = Inr y \<and>
           py_getitem (preds ! i) ''w'' = Inr w \<and>
           py_getitem (preds ! i) ''h'' = Inr bh \<and>
           py_getitem (preds ! i) ''class_name'' = Inr class_name \<and>
           py_getitem (preds ! i) ''confidence'' = Inr confidence \<and>
           py_add W x w = Inr x1 \<and> py_add W y bh = Inr y1 \<and>
           shapes ! i =
             JObj [(''label'', class_name),
                   (''points'', JList [JList [x, y], JList [x1, y1]]),
                   (''group_id'', JNull),
                   (''shape_type'', JStr ''rectangle''),
                   (''flags'', JObj [])]) \<and>
        (\<forall>i<length preds. \<forall>x y w bh.
           py_getitem (preds ! i) ''x'' = Inr (JInt x) \<and>
           py_getitem (preds ! i) ''y'' = Inr (JInt y) \<and>
           py_getitem (preds ! i) ''w'' = Inr (JInt w) \<and>
           py_getitem (preds ! i) ''h'' = Inr (JInt bh) \<longrightarrow>
           py_getitem (shapes ! i) ''points'' =
             Inr (JList [JList [JInt x, JInt y], JList [JInt (x + w), JInt (y + bh)]])))
     \<and> (\<forall>preds img t.
          list_all typed_detection preds \<and> (\<forall>i d. image_draw W i d = None) \<and>
          (\<forall>q. \<exists>tx. format_2f W (JFloat q) = Inr tx) \<longrightarrow>
          (\<exists>img' shapes t'. draw_predictions W font preds img [] t = (Inr (img', shapes), t') \<and>
             length shapes = length preds))"
proof (rule conjI)
  from process_image_outputs [OF name p readable resp created nodir run]
  obtain body predictions preds wh sa img shapes sb where
    body: "resp_json resp = Some body"
    and predictions: "py_get body ''result'' (JList []) = Inr predictions"
    and preds: "py_iter predictions = Inr preds"
    and loop: "draw_predictions W font preds \<lparr>img_src = f, img_size = wh, img_ops = []\<rparr> [] sa
        = (Inr (img, shapes), sb)"
    and doc: "fs_data (fs s') (json_filename p) =
        Some (json_dump W (labelme_document p f shapes wh))"
    by blast
  have isfile: "fs_dirs (fs s) p = None"
  proof (rule ccontr)
    assume "fs_dirs (fs s) p \<noteq> None"
    then have "fst (process_image W p url h font s) = Inl IsADirectoryError"
      by (simp add: process_image_def py_defs open_rb_def)
    then show False using run by simp
  qed
  have gen: "generate_labelme_json p shapes (fst wh) (snd wh) s
      = (Inr (labelme_document p f shapes wh), s)"
    using isfile readable by (simp add: generate_labelme_json_Inr_iff open_rb_Inr_iff)
  have listed: "py_getitem (labelme_document p f shapes wh) ''shapes'' = Inr (JList shapes)"
    by (simp add: labelme_document_def py_getitem_def)
  note A = draw_predictions_append [OF loop, simplified]
  have len: "length shapes = length preds"
    using A by simp
  have each: "\<forall>i<length preds. \<exists>x y w bh class_name confidence x1 y1.
           py_getitem (preds ! i) ''x'' = Inr x \<and>
           py_getitem (preds ! i) ''y'' = Inr y \<and>
           py_getitem (preds ! i) ''w'' = Inr w \<and>
           py_getitem (preds ! i) ''h'' = Inr bh \<and>
           py_getitem (preds ! i) ''class_name'' = Inr class_name \<and>
           py_getitem (preds ! i) ''confidence'' = Inr confidence \<and>
           py_add W x w = Inr x1 \<and> py_add W y bh = Inr y1 \<and>
           shapes ! i =
             JObj [(''label'', class_name),
                   (''points'', JList [JList [x, y], JList [x1, y1]]),
                   (''group_id'', JNull),
                   (''shape_type'', JStr ''rectangle''),
                   (''flags'', JObj [])]"
    using A by (simp add: shape_record_def)
  have ints: "\<forall>i<length preds. \<forall>x y w bh.
           py_getitem (preds ! i) ''x'' = Inr (JInt x) \<and>
           py_getitem (preds ! i) ''y'' = Inr (JInt y) \<and>
           py_getitem (preds ! i) ''w'' = Inr (JInt w) \<and>
           py_getitem (preds ! i) ''h'' = Inr (JInt bh) \<longrightarrow>
           py_getitem (shapes ! i) ''points'' =
             Inr (JList [JList [JInt x, JInt y], JList [JInt (x + w), JInt (y + bh)]])"
  proof (intro allI impI)
    fix i x y w bh
    assume i: "i < length preds"
      and given: "py_getitem (preds ! i) ''x'' = Inr (JInt x) \<and>
           py_getitem (preds ! i) ''y'' = Inr (JInt y) \<and>
           py_getitem (preds ! i) ''w'' = Inr (JInt w) \<and>
           py_getitem (preds ! i) ''h'' = Inr (JInt bh)"
    from A i obtain x' y' w' h' c x1 y1 where
      f: "py_getitem (preds ! i) ''x'' = Inr x'" "py_getitem (preds ! i) ''y'' = Inr y'"
        "py_getitem (preds ! i) ''w'' = Inr w'" "py_getitem (preds ! i) ''h'' = Inr h'"
      and sums: "py_add W x' w' = Inr x1" "py_add W y' h' = Inr y1"
      and shape: "shapes ! i = shape_record c x' y' x1 y1"
      by blast
    have eqs: "x' = JInt x" "y' = JInt y" "w' = JInt w" "h' = JInt bh"
      using f given by simp_all
    then have "x1 = JInt (x + w)" "y1 = JInt (y + bh)"
      using sums by simp_all
    then show "py_getitem (shapes ! i) ''points'' =
             Inr (JList [JList [JInt x, JInt y], JList [JInt (x + w), JInt (y + bh)]])"
      using shape eqs by (simp add: shape_record_def py_getitem_def)
  qed
  show "\<exists>body predictions preds wh img shapes sa sb.
        resp_json resp = Some body \<and>
        py_get body ''result'' (JList []) = Inr predictions \<and>
        py_iter predictions = Inr preds \<and>
        draw_predictions W font preds \<lparr>img_src = f, img_size = wh, img_ops = []\<rparr> [] sa
          = (Inr (img, shapes), sb) \<and>
        generate_labelme_json p shapes (fst wh) (snd wh) s
          = (Inr (labelme_document p f shapes wh), s) \<and>
        fs_data (fs s') (json_filename p) =
          Some (json_dump W (labelme_document p f shapes wh)) \<and>
        py_getitem (labelme_document p f shapes wh) ''shapes'' = Inr (JList shapes) \<and>
        length shapes = length preds \<and>
        (\<forall>i<length preds. \<exists>x y w bh class_name confidence x1 y1.
           py_getitem (preds ! i) ''x'' = Inr x \<and>
           py_getitem (preds ! i) ''y'' = Inr y \<and>
           py_getitem (preds ! i) ''w'' = Inr w \<and>
           py_getitem (preds ! i) ''h'' = Inr bh \<and>
           py_getitem (preds ! i) ''class_name'' = Inr class_name \<and>
           py_getitem (preds ! i) ''confidence'' = Inr confidence \<and>
           py_add W x w = Inr x1 \<and> py_add W y bh = Inr y1 \<and>
           shapes ! i =
             JObj [(''label'', class_name),
                   (''points'', JList [JList [x, y], JList [x1, y1]]),
                   (''group_id'', JNull),
                   (''shape_type'', JStr ''rectangle''),
                   (''flags'', JObj [])]) \<and>
        (\<forall>i<length preds. \<forall>x y w bh.
           py_getitem (preds ! i) ''x'' = Inr (JInt x) \<and>
           py_getitem (preds ! i) ''y'' = Inr (JInt y) \<and>
           py_getitem (preds ! i) ''w'' = Inr (JInt w) \<and>
           py_getitem (preds ! i) ''h'' = Inr (JInt bh) \<longrightarrow>
           py_getitem (shapes ! i) ''points'' =
             Inr (JList [JList [JInt x, JInt y], JList [JInt (x + w), JInt (y + bh)]]))"
    by (intro exI conjI, rule body, rule predictions, rule preds, rule loop, rule gen, rule doc,
        rule listed, rule len, rule each, rule ints)
next
  show "\<forall>preds img t.
          list_all typed_detection preds \<and> (\<forall>i d. image_draw W i d = None) \<and>
          (\<forall>q. \<exists>tx. format_2f W (JFloat q) = Inr tx) \<longrightarrow>
          (\<exists>img' shapes t'. draw_predictions W font preds img [] t = (Inr (img', shapes), t') \<and>
             length shapes = length preds)"
  proof (intro allI impI)
    fix preds img t
    assume lib: "list_all typed_detection preds \<and> (\<forall>i d. image_draw W i d = None) \<and>
          (\<forall>q. \<exists>tx. format_2f W (JFloat q) = Inr tx)"
    then have "\<exists>r t'. draw_predictions W font preds img [] t = (Inr r, t')"
      using draw_predictions_total by blast
    then obtain img' shapes t' where
      loop: "draw_predictions W font preds img [] t = (Inr (img', shapes), t')"
      by (metis prod.collapse)
    have "length shapes = length preds"
      using draw_predictions_append [OF loop] by simp
    then show "\<exists>img' shapes t'.
        draw_predictions W font preds img [] t = (Inr (img', shapes), t') \<and>
        length shapes = length preds"
      using loop by blast
  qed
qed

theorem shapes_follow_detections_witness:
  "fst (process_image demo_world ''input_images/a.png'' [] (JStr ''t0'') DefaultFont ready_state)
     = Inr ()
   \<and> (\<exists>shapes wh.
        fs_data (fs (snd (process_image demo_world ''input_images/a.png'' [] (JStr ''t0'')
                            DefaultFont ready_state))) ''labelme_output/a.json'' =
          Some (json_dump demo_world
                  (labelme_document ''input_images/a.png'' [9, 8, 7] shapes wh)) \<and>
        length shapes = 2 \<and>
        py_getitem (shapes ! 0) ''points'' =
          Inr (JList [JList [JInt 1, JInt 2], JList [JInt 4, JInt 6]]) \<and>
        py_getitem (shapes ! 1) ''points'' =
          Inr (JList [JList [JInt 5, JInt 6], JList [JInt 12, JInt 14]]))"
proof -
  let ?p = "''input_images/a.png''"
  let ?run = "process_image demo_world ?p [] (JStr ''t0'') DefaultFont ready_state"
  let ?preds = "[detection 1 2 3 4 ''dog'' 0x3FE0000000000000,
                 detection 5 6 7 8 ''cat'' 0x3FEBD70A3D70A3D7]"
  have name: "CHR ''/'' \<notin> set ''a.png''"
    "list_ex (endswith (lower ''a.png'')) allowed_extensions"
    by (simp_all add: allowed_extensions_def endswith_def lower_def lower_char_def)
  have p: "?p = path_join INPUT_FOLDER ''a.png''"
    by (simp add: path_join_def INPUT_FOLDER_def)
  have readable: "fs_data (fs ready_state) ?p = Some [9, 8, 7]"
    by (simp add: ready_state_def demo_files_def)
  have resp: "post_files demo_world [] (JStr ''t0'') ''a.png'' [9, 8, 7] =
      Inr (projr (demo_predict ''a.png''))"
    by (simp add: demo_world_def demo_predict_def)
  have created: "status_code (projr (demo_predict ''a.png'')) = 201"
    by (simp add: demo_predict_def)
  have json: "json_filename ?p = ''labelme_output/a.json''"
    "image_copy_path ?p = ''labelme_output/a.png''"
    by (simp_all add: json_filename_def image_copy_path_def
        basename_def splitext_def path_join_def OUTPUT_FOLDER_def)
  have nodir: "fs_dirs (fs ready_state) (image_copy_path ?p) = None"
    unfolding json by (simp add: ready_state_def)
  have ok: "fst ?run = Inr ()"
    by (simp add: eval_defs)
  then have run: "?run = (Inr (), snd ?run)"
    by (simp add: prod_eq_iff)
  note T = shapes_follow_detections [OF name p readable resp created nodir run, THEN conjunct1,
      unfolded json]
  then obtain body predictions preds wh shapes where
    body: "resp_json (projr (demo_predict ''a.png'')) = Some body"
    and predictions: "py_get body ''result'' (JList []) = Inr predictions"
    and preds: "py_iter predictions = Inr preds"
    and doc: "fs_data (fs (snd ?run)) ''labelme_output/a.json'' =
        Some (json_dump demo_world (labelme_document ?p [9, 8, 7] shapes wh))"
    and len: "length shapes = length preds"
    and ints: "\<forall>i<length preds. \<forall>x y w bh.
           py_getitem (preds ! i) ''x'' = Inr (JInt x) \<and>
           py_getitem (preds ! i) ''y'' = Inr (JInt y) \<and>
           py_getitem (preds ! i) ''w'' = Inr (JInt w) \<and>
           py_getitem (preds ! i) ''h'' = Inr (JInt bh) \<longrightarrow>
           py_getitem (shapes ! i) ''points'' =
             Inr (JList [JList [JInt x, JInt y], JList [JInt (x + w), JInt (y + bh)]])"
    by blast
  have received: "preds = ?preds"
    using body predictions preds by (auto simp: demo_predict_def py_get_def py_iter_def)
  have first: "py_getitem (shapes ! 0) ''points'' =
      Inr (JList [JList [JInt 1, JInt 2], JList [JInt 4, JInt 6]])"
    using ints [rule_format, of 0 1 2 3 4] unfolding received
    by (simp add: detection_def py_getitem_def)
  have second: "py_getitem (shapes ! 1) ''points'' =
      Inr (JList [JList [JInt 5, JInt 6], JList [JInt 12, JInt 14]])"
    using ints [rule_format, of 1 5 6 7 8] unfolding received
    by (simp add: detection_def py_getitem_def)
  have two: "length shapes = 2"
    using len unfolding received by simp
  show ?thesis
    by (intro conjI exI, rule ok, rule doc, rule two, rule first, rule second)
qed

text \<open>
  Claim C6. When the prediction request for a file answers with a status other than
  201, \<^verbatim>\<open>process_image\<close> prints the failure and returns, the file system is unchanged, and
  the loop of \<^verbatim>\<open>main\<close> goes on with the remaining files.
\<close>

theorem process_image_not_201:
  assumes p: "p = path_join INPUT_FOLDER image_file"
    and readable: "fs_dirs (fs s) p = None" "fs_data (fs s) p = Some f"
    and resp: "post_files W url headers (basename p) f = Inr resp"
    and status: "status_code resp \<noteq> 201"
  shows "process_image W p url headers font s =
           (Inr (), s\<lparr>stdout := stdout s @
              [ProcessingImage p, PredictionFailed p (resp_text resp)]\<rparr>)
       \<and> fs (snd (process_image W p url headers font s)) = fs s
       \<and> main_loop W url headers font (image_file # rest) s =
           main_loop W url headers font rest (s\<lparr>stdout := stdout s @
              [ProcessingImage p, PredictionFailed p (resp_text resp)]\<rparr>)"
  using readable resp status unfolding p
  by (simp add: process_image_def py_defs open_rb_def)

theorem process_image_not_201_witness:
  "fs_data (fs ready_state) (path_join INPUT_FOLDER ''b.png'') = Some [5]
   \<and> post_files demo_world [] (JStr ''t0'') (basename (path_join INPUT_FOLDER ''b.png'')) [5]
       = Inr \<lparr>status_code = 500, resp_text = ''Internal Server Error'', resp_json = None\<rparr>
   \<and> process_image demo_world ''input_images/b.png'' [] (JStr ''t0'') DefaultFont ready_state =
       (Inr (), ready_state\<lparr>stdout :=
          [ProcessingImage ''input_images/b.png'',
           PredictionFailed ''input_images/b.png'' ''Internal Server Error'']\<rparr>)
   \<and> main_loop demo_world [] (JStr ''t0'') DefaultFont [''b.png'', ''d.png''] ready_state =
       main_loop demo_world [] (JStr ''t0'') DefaultFont [''d.png'']
         (ready_state\<lparr>stdout :=
          [ProcessingImage ''input_images/b.png'',
           PredictionFailed ''input_images/b.png'' ''Internal Server Error'']\<rparr>)"
proof -
  let ?resp = "\<lparr>status_code = 500, resp_text = ''Internal Server Error'', resp_json = None\<rparr>"
  have p: "''input_images/b.png'' = path_join INPUT_FOLDER ''b.png''"
    by (simp add: path_join_def INPUT_FOLDER_def)
  have readable: "fs_dirs (fs ready_state) ''input_images/b.png'' = None"
    "fs_data (fs ready_state) ''input_images/b.png'' = Some [5]"
    by (simp_all add: ready_state_def demo_files_def)
  have resp: "post_files demo_world [] (JStr ''t0'') (basename ''input_images/b.png'') [5]
      = Inr ?resp"
    by (simp add: demo_world_def demo_predict_def basename_def)
  have status: "status_code ?resp \<noteq> 201"
    by simp
  note T = process_image_not_201 [OF p readable resp status, of DefaultFont "[''d.png'']"]
  show ?thesis
    using T readable resp by (simp add: p [symmetric] ready_state_def)
qed

text \<open>
  Claim C7. When the login answers with a status other than 200, or with 200 and a JSON
  object without \<open>access_token\<close>, \<^verbatim>\<open>main\<close> prints the failure and returns: the file
  system is as it was (no output folder is made) and no image is processed.
\<close>

theorem main_login_failure:
  assumes login: "post_json W (BASE_URL @ ''/login'')
                    [(''username'', username), (''password'', password)] = Inr resp"
    and failed: "status_code resp \<noteq> 200 \<or>
                 (\<exists>kvs. resp_json resp = Some (JObj kvs) \<and> map_of kvs ''access_token'' = None)"
  shows "main W s =
           (Inr (), s\<lparr>stdout := stdout s @
              [LoggingIn,
               if status_code resp \<noteq> 200 then LoginFailed (resp_text resp) else TokenNotFound]\<rparr>)
         \<and> fs (snd (main W s)) = fs s
         \<and> (\<forall>p. ProcessingImage p \<in> set (stdout (snd (main W s))) \<longrightarrow>
                ProcessingImage p \<in> set (stdout s))"
  using assms
  by (auto simp: main_def py_defs response_json_def py_get_def py_truthy_def Let_def)

theorem main_login_failure_witness:
  "post_json denied_world (BASE_URL @ ''/login'')
     [(''username'', username), (''password'', password)]
     = Inr \<lparr>status_code = 401, resp_text = ''Unauthorized'', resp_json = None\<rparr>
   \<and> main denied_world demo_state =
       (Inr (), demo_state\<lparr>stdout := [LoggingIn, LoginFailed ''Unauthorized'']\<rparr>)
   \<and> fs_dirs (fs (snd (main denied_world demo_state))) ''labelme_output'' = None"
proof -
  let ?resp = "\<lparr>status_code = 401, resp_text = ''Unauthorized'', resp_json = None\<rparr>"
  have login: "post_json denied_world (BASE_URL @ ''/login'')
     [(''username'', username), (''password'', password)] = Inr ?resp"
    by (simp add: denied_world_def)
  have failed: "status_code ?resp \<noteq> 200 \<or>
      (\<exists>kvs. resp_json ?resp = Some (JObj kvs) \<and> map_of kvs ''access_token'' = None)"
    by simp
  note T = main_login_failure [OF login failed, of demo_state]
  have "main denied_world demo_state =
       (Inr (), demo_state\<lparr>stdout := [LoggingIn, LoginFailed ''Unauthorized'']\<rparr>)"
    using T by (simp add: demo_state_def)
  moreover have "fs_dirs (fs (snd (main denied_world demo_state))) ''labelme_output'' = None"
    using T by (simp add: demo_state_def)
  ultimately show ?thesis
    using login by simp
qed

text \<open>
  Claim C8, as amended. For a file of the input folder whose prediction response has
  nothing to iterate over (an empty or missing \<open>result\<close>), with an image Pillow opens and
  an output folder that is there: the image handed to \<^verbatim>\<open>image.save\<close> is the image as it was
  opened, no drawing call made on it. If \<^verbatim>\<open>image.save\<close> encodes it, \<^verbatim>\<open>process_image\<close>
  returns, the preview is that encoding, the annotation is the document with an empty
  shapes list, the copy holds the bytes of the input file, and no colour has been
  assigned. If \<^verbatim>\<open>image.save\<close> raises, the exception leaves \<^verbatim>\<open>process_image\<close>, neither the
  annotation nor the copy is written, and no preview is made: the preview path stays
  without a file, or, where a file was, holds what the encoder wrote before it raised.
\<close>

theorem zero_detections_outputs:
  assumes name: "CHR ''/'' \<notin> set image_file"
      "list_ex (endswith (lower image_file)) allowed_extensions"
    and p: "p = path_join INPUT_FOLDER image_file"
    and readable: "fs_dirs (fs s) p = None" "fs_data (fs s) p = Some f"
    and resp: "post_files W url h image_file f = Inr resp"
    and created: "status_code resp = 201"
    and body: "resp_json resp = Some body"
    and result: "py_get body ''result'' (JList []) = Inr predictions"
    and zero: "py_iter predictions = Inr []"
    and decode: "image_open W f = Inr wh"
    and outdir: "fs_dirs (fs s) OUTPUT_FOLDER \<noteq> None"
    and free: "fs_dirs (fs s) (output_image_path p) = None"
      "fs_dirs (fs s) (json_filename p) = None" "fs_dirs (fs s) (image_copy_path p) = None"
  shows
    "(\<forall>jpg. image_save W \<lparr>img_src = f, img_size = wh, img_ops = []\<rparr> = Inr jpg \<longrightarrow>
        (\<exists>s'. process_image W p url h font s = (Inr (), s') \<and>
           fs_data (fs s') (output_image_path p) = Some jpg \<and>
           fs_data (fs s') (json_filename p) =
             Some (json_dump W (labelme_document p f [] wh)) \<and>
           py_getitem (labelme_document p f [] wh) ''shapes'' = Inr (JList []) \<and>
           fs_data (fs s') (image_copy_path p) = Some f \<and>
           class_colors s' = class_colors s))
     \<and> (\<forall>e written.
          image_save W \<lparr>img_src = f, img_size = wh, img_ops = []\<rparr> = Inl (e, written) \<longrightarrow>
          (\<exists>s'. process_image W p url h font s = (Inl e, s') \<and>
             fs_data (fs s') (json_filename p) = fs_data (fs s) (json_filename p) \<and>
             fs_data (fs s') (image_copy_path p) = fs_data (fs s) (image_copy_path p) \<and>
             fs_data (fs s') (output_image_path p) =
               (if fs_data (fs s) (output_image_path p) = None then None else Some written) \<and>
             class_colors s' = class_colors s))"
proof (intro conjI allI impI)
  fix jpg
  assume save: "image_save W \<lparr>img_src = f, img_size = wh, img_ops = []\<rparr> = Inr jpg"
  from process_image_no_detections [OF name(1) p readable resp created body result zero
      decode save outdir free]
  obtain s' where run: "process_image W p url h font s = (Inr (), s')"
    and data: "fs_data (fs s') = (fs_data (fs s))
        (output_image_path p \<mapsto> jpg,
         json_filename p \<mapsto> json_dump W (labelme_document p f [] wh),
         image_copy_path p \<mapsto> f)"
    and colors: "class_colors s' = class_colors s"
    by blast
  note apart = outputs_apart(4-6) [OF name(1), folded p]
  have "fs_data (fs s') (output_image_path p) = Some jpg"
    "fs_data (fs s') (json_filename p) = Some (json_dump W (labelme_document p f [] wh))"
    "fs_data (fs s') (image_copy_path p) = Some f"
    unfolding data using apart(1,2) apart(3) [OF name(2)] by simp_all
  moreover have "py_getitem (labelme_document p f [] wh) ''shapes'' = Inr (JList [])"
    by (simp add: labelme_document_def py_getitem_def)
  ultimately show "\<exists>s'. process_image W p url h font s = (Inr (), s') \<and>
           fs_data (fs s') (output_image_path p) = Some jpg \<and>
           fs_data (fs s') (json_filename p) =
             Some (json_dump W (labelme_document p f [] wh)) \<and>
           py_getitem (labelme_document p f [] wh) ''shapes'' = Inr (JList []) \<and>
           fs_data (fs s') (image_copy_path p) = Some f \<and>
           class_colors s' = class_colors s"
    using run colors by blast
next
  fix e written
  assume save: "image_save W \<lparr>img_src = f, img_size = wh, img_ops = []\<rparr> = Inl (e, written)"
  from process_image_save_fails [OF name(1) p readable resp created body result zero decode
      save outdir free(1)]
  obtain s' where run: "process_image W p url h font s = (Inl e, s')"
    and data: "fs_data (fs s') =
        (if fs_data (fs s) (output_image_path p) = None then fs_data (fs s)
         else (fs_data (fs s))(output_image_path p \<mapsto> written))"
    and colors: "class_colors s' = class_colors s"
    by blast
  note apart = outputs_apart(4-5) [OF name(1), folded p]
  have "fs_data (fs s') (json_filename p) = fs_data (fs s) (json_filename p)"
    "fs_data (fs s') (image_copy_path p) = fs_data (fs s) (image_copy_path p)"
    "fs_data (fs s') (output_image_path p) =
       (if fs_data (fs s) (output_image_path p) = None then None else Some written)"
    unfolding data using apart by simp_all
  then show "\<exists>s'. process_image W p url h font s = (Inl e, s') \<and>
             fs_data (fs s') (json_filename p) = fs_data (fs s) (json_filename p) \<and>
             fs_data (fs s') (image_copy_path p) = fs_data (fs s) (image_copy_path p) \<and>
             fs_data (fs s') (output_image_path p) =
               (if fs_data (fs s) (output_image_path p) = None then None else Some written) \<and>
             class_colors s' = class_colors s"
    using run colors by blast
qed

theorem zero_detections_outputs_witness:
  "py_iter (JList []) = Inr []
   \<and> image_save demo_world \<lparr>img_src = [7, 7], img_size = (640, 480), img_ops = []\<rparr>
       = Inr [0, 7, 7]
   \<and> (\<exists>s'. process_image demo_world ''input_images/d.png'' [] (JStr ''t0'') DefaultFont
              ready_state = (Inr (), s') \<and>
          fs_data (fs s') ''labelme_output/d_prediction.jpg'' = Some [0, 7, 7] \<and>
          fs_data (fs s') ''labelme_output/d.json'' =
            Some (json_dump demo_world
              (labelme_document ''input_images/d.png'' [7, 7] [] (640, 480))) \<and>
          py_getitem (labelme_document ''input_images/d.png'' [7, 7] [] (640, 480))
            ''shapes'' = Inr (JList []) \<and>
          fs_data (fs s') ''labelme_output/d.png'' = Some [7, 7] \<and>
          class_colors s' = [])"
proof -
  let ?p = "''input_images/d.png''"
  let ?resp = "\<lparr>status_code = 201, resp_text = [], resp_json = Some (JObj [])\<rparr>"
  have name: "CHR ''/'' \<notin> set ''d.png''"
    "list_ex (endswith (lower ''d.png'')) allowed_extensions"
    by (simp_all add: allowed_extensions_def endswith_def lower_def lower_char_def)
  have p: "?p = path_join INPUT_FOLDER ''d.png''"
    by (simp add: path_join_def INPUT_FOLDER_def)
  have readable: "fs_dirs (fs ready_state) ?p = None" "fs_data (fs ready_state) ?p = Some [7, 7]"
    by (simp_all add: ready_state_def demo_files_def)
  have resp: "post_files demo_world [] (JStr ''t0'') ''d.png'' [7, 7] = Inr ?resp"
    by (simp add: demo_world_def demo_predict_def)
  have created: "status_code ?resp = 201" and body: "resp_json ?resp = Some (JObj [])"
    by simp_all
  have result: "py_get (JObj []) ''result'' (JList []) = Inr (JList [])"
    by (simp add: py_get_def)
  have zero: "py_iter (JList []) = Inr []"
    by (simp add: py_iter_def)
  have decode: "image_open demo_world [7, 7] = Inr (640, 480)"
    by (simp add: demo_world_def)
  have save: "image_save demo_world \<lparr>img_src = [7, 7], img_size = (640, 480), img_ops = []\<rparr>
       = Inr [0, 7, 7]"
    by (simp add: demo_world_def)
  have outdir: "fs_dirs (fs ready_state) OUTPUT_FOLDER \<noteq> None"
    by (simp add: ready_state_def OUTPUT_FOLDER_def)
  have paths: "output_image_path ?p = ''labelme_output/d_prediction.jpg''"
    "json_filename ?p = ''labelme_output/d.json''"
    "image_copy_path ?p = ''labelme_output/d.png''"
    by (simp_all add: output_image_path_def json_filename_def image_copy_path_def
        basename_def splitext_def path_join_def OUTPUT_FOLDER_def)
  have free: "fs_dirs (fs ready_state) (output_image_path ?p) = None"
    "fs_dirs (fs ready_state) (json_filename ?p) = None"
    "fs_dirs (fs ready_state) (image_copy_path ?p) = None"
    unfolding paths by (simp_all add: ready_state_def)
  note T = zero_detections_outputs [OF name p readable resp created body result zero decode
      outdir free, where font = DefaultFont, THEN conjunct1, rule_format, OF save]
  have colors: "class_colors ready_state = []"
    by (simp add: ready_state_def)
  show ?thesis
    by (intro conjI, rule zero, rule save, rule T [unfolded paths colors])
qed

text \<open>
  The claim as the specification states it fails: the response for \<open>d.png\<close> has no
  Detection Record, and with a Pillow that cannot write the image as JPEG the call ends
  with \<^verbatim>\<open>OSError\<close> and none of the three files is there.
\<close>

theorem save_failure_leaves_no_artifact:
  "post_files alpha_world [] (JStr ''t0'') ''d.png'' [7, 7] =
     Inr \<lparr>status_code = 201, resp_text = [], resp_json = Some (JObj [])\<rparr>
   \<and> py_get (JObj []) ''result'' (JList []) = Inr (JList [])
   \<and> fst (process_image alpha_world ''input_images/d.png'' [] (JStr ''t0'') DefaultFont
            ready_state) = Inl OSError
   \<and> fs_data (fs (snd (process_image alpha_world ''input_images/d.png'' [] (JStr ''t0'')
          DefaultFont ready_state))) ''labelme_output/d_prediction.jpg'' = None
   \<and> fs_data (fs (snd (process_image alpha_world ''input_images/d.png'' [] (JStr ''t0'')
          DefaultFont ready_state))) ''labelme_output/d.json'' = None
   \<and> fs_data (fs (snd (process_image alpha_world ''input_images/d.png'' [] (JStr ''t0'')
          DefaultFont ready_state))) ''labelme_output/d.png'' = None"
  by (simp add: alpha_world_def eval_defs)

text \<open>
  Claim C9. When the login answers 200 with an \<open>access_token\<close> that is falsy (the empty
  string, null, false, 0, an empty list or dict), \<^verbatim>\<open>main\<close> ends exactly as it does when the
  field is absent: it prints that the token was not found and returns.
\<close>

theorem main_falsy_token:
  assumes login: "post_json W (BASE_URL @ ''/login'')
                    [(''username'', username), (''password'', password)] = Inr resp"
    and ok: "status_code resp = 200"
    and body: "resp_json resp = Some (JObj kvs)"
    and token: "map_of kvs ''access_token'' = Some v"
    and falsy: "\<not> py_truthy W v"
  shows "main W s = (Inr (), s\<lparr>stdout := stdout s @ [LoggingIn, TokenNotFound]\<rparr>)
     \<and> (\<forall>W' resp' kvs'.
           post_json W' (BASE_URL @ ''/login'')
             [(''username'', username), (''password'', password)] = Inr resp' \<and>
           status_code resp' = 200 \<and> resp_json resp' = Some (JObj kvs') \<and>
           map_of kvs' ''access_token'' = None \<longrightarrow> main W' s = main W s)
     \<and> \<not> py_truthy W (JStr []) \<and> \<not> py_truthy W JNull \<and> \<not> py_truthy W (JBool False)
     \<and> \<not> py_truthy W (JInt 0) \<and> \<not> py_truthy W (JList []) \<and> \<not> py_truthy W (JObj [])"
  using assms
  by (auto simp: main_def py_defs response_json_def py_get_def py_truthy_def Let_def)

theorem main_falsy_token_witness:
  "post_json empty_token_world (BASE_URL @ ''/login'')
     [(''username'', username), (''password'', password)]
     = Inr \<lparr>status_code = 200, resp_text = [],
            resp_json = Some (JObj [(''access_token'', JStr [])])\<rparr>
   \<and> \<not> py_truthy empty_token_world (JStr [])
   \<and> main empty_token_world demo_state =
       (Inr (), demo_state\<lparr>stdout := [LoggingIn, TokenNotFound]\<rparr>)"
proof -
  let ?resp = "\<lparr>status_code = 200, resp_text = [],
            resp_json = Some (JObj [(''access_token'', JStr [])])\<rparr>"
  have login: "post_json empty_token_world (BASE_URL @ ''/login'')
     [(''username'', username), (''password'', password)] = Inr ?resp"
    by (simp add: empty_token_world_def)
  have ok: "status_code ?resp = 200" and body: "resp_json ?resp = Some (JObj [(''access_token'', JStr [])])"
    and token: "map_of [(''access_token'', JStr [])] ''access_token'' = Some (JStr [])"
    and falsy: "\<not> py_truthy empty_token_world (JStr [])"
    by (simp_all add: py_truthy_def)
  note T = main_falsy_token [OF login ok body token falsy, of demo_state]
  have "main empty_token_world demo_state =
       (Inr (), demo_state\<lparr>stdout := [LoggingIn, TokenNotFound]\<rparr>)"
    using T by (simp add: demo_state_def)
  then show ?thesis
    using login falsy by simp
qed

text \<open>
  Claim C10. Two files of the input folder with the same stem have the same preview
  path and the same annotation path. When both are processed one after the other, the
  preview and the annotation the first one wrote there are replaced by those of the
  second.
\<close>

theorem same_stem_overwrites:
  assumes names: "CHR ''/'' \<notin> set file1" "CHR ''/'' \<notin> set file2"
    and images: "list_ex (endswith (lower file1)) allowed_extensions"
      "list_ex (endswith (lower file2)) allowed_extensions"
    and stems: "fst (splitext file1) = fst (splitext file2)"
    and p1: "p1 = path_join INPUT_FOLDER file1" and p2: "p2 = path_join INPUT_FOLDER file2"
    and first: "fs_data (fs s) p1 = Some f1" "post_files W url h file1 f1 = Inr resp1"
      "status_code resp1 = 201" "fs_dirs (fs s) (image_copy_path p1) = None"
      "process_image W p1 url h font s = (Inr (), s1)"
    and second: "fs_data (fs s1) p2 = Some f2" "post_files W url h file2 f2 = Inr resp2"
      "status_code resp2 = 201" "fs_dirs (fs s1) (image_copy_path p2) = None"
      "process_image W p2 url h font s1 = (Inr (), s2)"
  shows "output_image_path p1 = output_image_path p2 \<and> json_filename p1 = json_filename p2 \<and>
    (\<exists>img1 jpg1 shapes1 wh1.
       img_src img1 = f1 \<and> image_save W img1 = Inr jpg1 \<and>
       fs_data (fs s1) (output_image_path p1) = Some jpg1 \<and>
       fs_data (fs s1) (json_filename p1) =
         Some (json_dump W (labelme_document p1 f1 shapes1 wh1))) \<and>
    (\<exists>img2 jpg2 shapes2 wh2.
       img_src img2 = f2 \<and> image_save W img2 = Inr jpg2 \<and>
       fs_data (fs s2) (output_image_path p1) = Some jpg2 \<and>
       fs_data (fs s2) (json_filename p1) =
         Some (json_dump W (labelme_document p2 f2 shapes2 wh2)))"
proof -
  have same: "output_image_path p1 = output_image_path p2" "json_filename p1 = json_filename p2"
    unfolding p1 p2 output_paths [OF names(1)] output_paths [OF names(2)] stems by simp_all
  from process_image_outputs [OF names(1) images(1) p1 first]
  have one: "\<exists>img1 jpg1 shapes1 wh1.
       img_src img1 = f1 \<and> image_save W img1 = Inr jpg1 \<and>
       fs_data (fs s1) (output_image_path p1) = Some jpg1 \<and>
       fs_data (fs s1) (json_filename p1) =
         Some (json_dump W (labelme_document p1 f1 shapes1 wh1))"
    by blast
  from process_image_outputs [OF names(2) images(2) p2 second]
  have two: "\<exists>img2 jpg2 shapes2 wh2.
       img_src img2 = f2 \<and> image_save W img2 = Inr jpg2 \<and>
       fs_data (fs s2) (output_image_path p2) = Some jpg2 \<and>
       fs_data (fs s2) (json_filename p2) =
         Some (json_dump W (labelme_document p2 f2 shapes2 wh2))"
    by blast
  show ?thesis
    using same one two by simp
qed

theorem same_stem_overwrites_witness:
  "fst (splitext ''a.jpg'') = fst (splitext ''a.png'')
   \<and> fst (process_image demo_world ''input_images/a.jpg'' [] (JStr ''t0'') DefaultFont ready_state)
       = Inr ()
   \<and> fst (process_image demo_world ''input_images/a.png'' [] (JStr ''t0'') DefaultFont
        (snd (process_image demo_world ''input_images/a.jpg'' [] (JStr ''t0'') DefaultFont
               ready_state))) = Inr ()
   \<and> output_image_path ''input_images/a.jpg'' = ''labelme_output/a_prediction.jpg''
   \<and> output_image_path ''input_images/a.png'' = ''labelme_output/a_prediction.jpg''
   \<and> json_filename ''input_images/a.jpg'' = ''labelme_output/a.json''
   \<and> json_filename ''input_images/a.png'' = ''labelme_output/a.json''
   \<and> (\<exists>img2 jpg2 shapes2 wh2.
        img_src img2 = [9, 8, 7] \<and> image_save demo_world img2 = Inr jpg2 \<and>
        fs_data (fs (snd (process_image demo_world ''input_images/a.png'' [] (JStr ''t0'')
           DefaultFont (snd (process_image demo_world ''input_images/a.jpg'' [] (JStr ''t0'')
              DefaultFont ready_state))))) ''labelme_output/a_prediction.jpg'' = Some jpg2 \<and>
        fs_data (fs (snd (process_image demo_world ''input_images/a.png'' [] (JStr ''t0'')
           DefaultFont (snd (process_image demo_world ''input_images/a.jpg'' [] (JStr ''t0'')
              DefaultFont ready_state))))) ''labelme_output/a.json'' =
          Some (json_dump demo_world
                  (labelme_document ''input_images/a.png'' [9, 8, 7] shapes2 wh2)))"
proof -
  let ?p1 = "''input_images/a.jpg''" and ?p2 = "''input_images/a.png''"
  let ?run1 = "process_image demo_world ?p1 [] (JStr ''t0'') DefaultFont ready_state"
  let ?run2 = "process_image demo_world ?p2 [] (JStr ''t0'') DefaultFont (snd ?run1)"
  have names: "CHR ''/'' \<notin> set ''a.jpg''" "CHR ''/'' \<notin> set ''a.png''"
    by simp_all
  have images: "list_ex (endswith (lower ''a.jpg'')) allowed_extensions"
    "list_ex (endswith (lower ''a.png'')) allowed_extensions"
    by (simp_all add: allowed_extensions_def endswith_def lower_def lower_char_def)
  have stems: "fst (splitext ''a.jpg'') = fst (splitext ''a.png'')"
    by (simp add: splitext_def basename_def)
  have p1: "?p1 = path_join INPUT_FOLDER ''a.jpg''" and p2: "?p2 = path_join INPUT_FOLDER ''a.png''"
    by (simp_all add: path_join_def INPUT_FOLDER_def)
  have paths: "output_image_path ?p1 = ''labelme_output/a_prediction.jpg''"
    "output_image_path ?p2 = ''labelme_output/a_prediction.jpg''"
    "json_filename ?p1 = ''labelme_output/a.json''"
    "json_filename ?p2 = ''labelme_output/a.json''"
    "image_copy_path ?p1 = ''labelme_output/a.jpg''"
    "image_copy_path ?p2 = ''labelme_output/a.png''"
    by (simp_all add: output_image_path_def json_filename_def image_copy_path_def
        basename_def splitext_def path_join_def OUTPUT_FOLDER_def)
  have ok1: "fst ?run1 = Inr ()"
    by (simp add: eval_defs)
  have s1: "fs_data (fs (snd ?run1)) ?p2 = Some [9, 8, 7]"
    "fs_dirs (fs (snd ?run1)) ''labelme_output/a.png'' = None"
    by (simp_all add: eval_defs)
  have ok2: "fst ?run2 = Inr ()"
    by (simp add: eval_defs)
  have first: "fs_data (fs ready_state) ?p1 = Some [1, 2, 3, 4]"
    "post_files demo_world [] (JStr ''t0'') ''a.jpg'' [1, 2, 3, 4] =
       Inr (projr (demo_predict ''a.jpg''))"
    "status_code (projr (demo_predict ''a.jpg'')) = 201"
    "fs_dirs (fs ready_state) (image_copy_path ?p1) = None"
    "?run1 = (Inr (), snd ?run1)"
    unfolding paths using ok1
    by (simp_all add: ready_state_def demo_files_def demo_world_def demo_predict_def prod_eq_iff)
  have second: "fs_data (fs (snd ?run1)) ?p2 = Some [9, 8, 7]"
    "post_files demo_world [] (JStr ''t0'') ''a.png'' [9, 8, 7] =
       Inr (projr (demo_predict ''a.png''))"
    "status_code (projr (demo_predict ''a.png'')) = 201"
    "fs_dirs (fs (snd ?run1)) (image_copy_path ?p2) = None"
    "?run2 = (Inr (), snd ?run2)"
    unfolding paths using ok2 s1
    by (simp_all add: demo_world_def demo_predict_def prod_eq_iff)
  note T = same_stem_overwrites [OF names images stems p1 p2 first second]
  show ?thesis
    by (intro conjI, rule stems, rule ok1, rule ok2, rule paths(1), rule paths(2),
        rule paths(3), rule paths(4),
        rule T [unfolded paths, THEN conjunct2, THEN conjunct2, THEN conjunct2])
qed

end
